theory Spec2Isabelle
  imports Complex_Main
begin

section \<open>Time bounds\<close>

text \<open>
  \<^verbatim>\<open>charts/HTMLTimeline.tsx\<close> imports \<^verbatim>\<open>Time\<close>, \<^verbatim>\<open>TimeBound\<close>, \<^verbatim>\<open>TimeBoundValue\<close> and the
  tests \<^verbatim>\<open>isUnbounded\<close>, \<^verbatim>\<open>isUnboundedLeft\<close>, \<^verbatim>\<open>isUnboundedRight\<close> from \<^verbatim>\<open>./TimeBounds\<close>.
  A \<^verbatim>\<open>Time\<close> is a JavaScript number; it is modelled as a real, so rounding, NaN and the
  infinities are outside the model (where the source would produce one of them, the
  model returns the error \<open>NonFinite\<close>).
\<close>

type_synonym Time = real

text \<open>
  Modelled from the spec: the declaration of \<^verbatim>\<open>TimeBound\<close> (\<^verbatim>\<open>./TimeBounds\<close>) is missing.
  The spec has a bound be a concrete year or one of two sentinels, unbounded left and
  unbounded right. The source hands bounds to \<^verbatim>\<open>Math.min\<close> and \<^verbatim>\<open>Math.max\<close>, so they are
  numbers in one line: the left sentinel below every year, the right one above.
\<close>

datatype TimeBound = UnboundedLeft | Concrete Time | UnboundedRight

fun isUnboundedLeft :: "TimeBound \<Rightarrow> bool" where
  "isUnboundedLeft UnboundedLeft = True"
| "isUnboundedLeft _ = False"

fun isUnboundedRight :: "TimeBound \<Rightarrow> bool" where
  "isUnboundedRight UnboundedRight = True"
| "isUnboundedRight _ = False"

definition isUnbounded :: "TimeBound \<Rightarrow> bool" where
  "isUnbounded b = (isUnboundedLeft b \<or> isUnboundedRight b)"

fun bound_le :: "TimeBound \<Rightarrow> TimeBound \<Rightarrow> bool" where
  "bound_le UnboundedLeft _ = True"
| "bound_le _ UnboundedRight = True"
| "bound_le (Concrete a) (Concrete b) = (a \<le> b)"
| "bound_le _ _ = False"

instantiation TimeBound :: linorder
begin

definition less_eq_TimeBound :: "TimeBound \<Rightarrow> TimeBound \<Rightarrow> bool" where
  "less_eq_TimeBound a b = bound_le a b"

definition less_TimeBound :: "TimeBound \<Rightarrow> TimeBound \<Rightarrow> bool" where
  "less_TimeBound a b = (bound_le a b \<and> \<not> bound_le b a)"

instance
proof
  fix x y z :: TimeBound
  show "(x < y) = (x \<le> y \<and> \<not> y \<le> x)"
    by (simp add: less_eq_TimeBound_def less_TimeBound_def)
  show "x \<le> x"
    by (cases x) (simp_all add: less_eq_TimeBound_def)
  show "x \<le> y \<Longrightarrow> y \<le> z \<Longrightarrow> x \<le> z"
    by (cases x; cases y; cases z) (simp_all add: less_eq_TimeBound_def)
  show "x \<le> y \<Longrightarrow> y \<le> x \<Longrightarrow> x = y"
    by (cases x; cases y) (simp_all add: less_eq_TimeBound_def)
  show "x \<le> y \<or> y \<le> x"
    by (cases x; cases y) (auto simp add: less_eq_TimeBound_def)
qed

end

section \<open>The component\<close>

text \<open>\<^verbatim>\<open>TimelineProps\<close>; the two bounds of the props are \<open>startYearProp\<close> and \<open>endYearProp\<close>
  here, since \<open>startYear\<close> and \<open>endYear\<close> are the component's accessors.\<close>

record TimelineProps =
  years :: "Time list"
  startYearProp :: TimeBound
  endYearProp :: TimeBound
  singleYearMode :: bool
  singleYearPlay :: bool
  disablePlay :: bool

text \<open>\<^verbatim>\<open>dragTarget?: string\<close> only ever holds \<^verbatim>\<open>"start"\<close>, \<^verbatim>\<open>"end"\<close> or \<^verbatim>\<open>"both"\<close>.\<close>

datatype DragTarget = Start | End | Both

text \<open>What a mouse or touch event gives the handlers: the pointer's x relative to the
  slider (\<^verbatim>\<open>getRelativeMouse(slider, evt).x\<close>) and the classes of the event's target.\<close>

record MouseEvt =
  mouseX :: real
  toggle :: bool
  startMarker :: bool
  endMarker :: bool

text \<open>The two callbacks the component hands to \<^verbatim>\<open>requestAnimationFrame\<close>: the playback
  loop's \<^verbatim>\<open>playFrame\<close>, and the closure of \<^verbatim>\<open>onMouseMove\<close> that holds its event.\<close>

datatype FrameCallback = PlayFrame | DragFrame MouseEvt

text \<open>
  The fields of the class, then what it reaches outside itself: \<open>lastTime\<close> is the variable
  that the closure of \<^verbatim>\<open>onStartPlaying\<close> holds; \<open>frames\<close> are the browser's pending
  animation-frame requests with their handles and \<open>nextHandle\<close> the next handle it gives;
  \<open>sliderWidth\<close> is the width of the slider's bounding rectangle, \<open>None\<close> while
  \<^verbatim>\<open>base.current\<close> is null; \<open>listening\<close> says whether the document listeners are registered
  and \<open>reacting\<close> whether the four reactions of \<^verbatim>\<open>componentDidMount\<close> are live;
  \<open>targetChanges\<close> logs the calls of
  \<^verbatim>\<open>props.onTargetChange\<close>, \<open>debounceMode\<close> is the host's flag and \<open>console\<close> the warnings.
\<close>

record Timeline =
  props :: TimelineProps
  isPlaying :: bool
  dragTarget :: "DragTarget option"
  startYearRaw :: TimeBound
  endYearRaw :: TimeBound
  animRequest :: "nat option"
  dragOffsets :: "real \<times> real"
  queuedAnimationFrame :: "nat option"
  lastTime :: "real option"
  frames :: "(nat \<times> FrameCallback) list"
  nextHandle :: nat
  sliderWidth :: "real option"
  listening :: bool
  reacting :: bool
  targetChanges :: "(TimeBound \<times> TimeBound) list"
  debounceMode :: bool
  console :: "string list"

datatype error = TypeError | NonFinite

definition DEFAULT_MIN_YEAR :: Time where
  "DEFAULT_MIN_YEAR = 1900"

definition DEFAULT_MAX_YEAR :: Time where
  "DEFAULT_MAX_YEAR = 2000"

definition isDragging :: "Timeline \<Rightarrow> bool" where
  "isDragging t = (dragTarget t \<noteq> None)"

definition startYear :: "Timeline \<Rightarrow> TimeBound" where
  "startYear t = min (startYearRaw t) (endYearRaw t)"

definition endYear :: "Timeline \<Rightarrow> TimeBound" where
  "endYear t = max (startYearRaw t) (endYearRaw t)"

text \<open>
  Modelled from the spec: \<^verbatim>\<open>first\<close> and \<^verbatim>\<open>last\<close> (\<^verbatim>\<open>./Util\<close>) are missing. The spec has the
  ordered year axis give the minimum and the maximum year, and the defaults take over on
  an empty axis (the source's \<^verbatim>\<open>?? DEFAULT_MIN_YEAR\<close>): the first and the last element, and
  no result on an empty array, as lodash's functions of these names.
\<close>

fun first :: "'a list \<Rightarrow> 'a option" where
  "first [] = None"
| "first (x # xs) = Some x"

fun last_opt :: "'a list \<Rightarrow> 'a option" where
  "last_opt [] = None"
| "last_opt [x] = Some x"
| "last_opt (x # xs) = last_opt xs"

definition minYear :: "Timeline \<Rightarrow> Time" where
  "minYear t = (case first (years (props t)) of Some y \<Rightarrow> y | None \<Rightarrow> DEFAULT_MIN_YEAR)"

definition maxYear :: "Timeline \<Rightarrow> Time" where
  "maxYear t = (case last_opt (years (props t)) of Some y \<Rightarrow> y | None \<Rightarrow> DEFAULT_MAX_YEAR)"

definition timeDomain :: "Timeline \<Rightarrow> Time \<times> Time" where
  "timeDomain t = (minYear t, maxYear t)"

definition getClampedYear :: "Timeline \<Rightarrow> Time \<Rightarrow> Time" where
  "getClampedYear t inputYear = min (maxYear t) (max (minYear t) inputYear)"

text \<open>\<^verbatim>\<open>getYearUI\<close> returns a \<^verbatim>\<open>Time\<close>: the year of a concrete bound as it is.\<close>

fun getYearUI :: "Timeline \<Rightarrow> TimeBound \<Rightarrow> Time" where
  "getYearUI t UnboundedLeft = minYear t"
| "getYearUI t UnboundedRight = maxYear t"
| "getYearUI t (Concrete y) = y"


definition startYearUI :: "Timeline \<Rightarrow> Time" where
  "startYearUI t = getYearUI t (startYear t)"

definition endYearUI :: "Timeline \<Rightarrow> Time" where
  "endYearUI t = getYearUI t (endYear t)"

text \<open>
  Modelled from the spec: \<^verbatim>\<open>findClosestYear\<close> (\<^verbatim>\<open>./Util\<close>) is missing. The spec snaps a
  concrete bound to the closest value present in the year axis, nearest by absolute
  numeric distance, and allows the lower index on a tie; the source's
  \<^verbatim>\<open>?? defaultValue\<close> shows that there is no result when the axis has no year.
\<close>

fun findClosestYear :: "Time list \<Rightarrow> Time \<Rightarrow> Time option" where
  "findClosestYear [] targetYear = None"
| "findClosestYear (y # ys) targetYear =
     (case findClosestYear ys targetYear of
        None \<Rightarrow> Some y
      | Some c \<Rightarrow> if \<bar>y - targetYear\<bar> \<le> \<bar>c - targetYear\<bar> then Some y else Some c)"

definition getClosest :: "Timeline \<Rightarrow> TimeBound \<Rightarrow> TimeBound \<Rightarrow> TimeBound" where
  "getClosest t bound defaultValue =
     (if isUnbounded bound then bound
      else case bound of
        Concrete y \<Rightarrow>
          (case findClosestYear (years (props t)) y of
             Some c \<Rightarrow> Concrete c
           | None \<Rightarrow> defaultValue)
      | _ \<Rightarrow> bound)"

definition startYearClosest :: "Timeline \<Rightarrow> TimeBound" where
  "startYearClosest t = getClosest t (startYear t) UnboundedLeft"

definition endYearClosest :: "Timeline \<Rightarrow> TimeBound" where
  "endYearClosest t = getClosest t (endYear t) UnboundedRight"

subsection \<open>Animation frames\<close>

definition requestAnimationFrame :: "FrameCallback \<Rightarrow> Timeline \<Rightarrow> nat \<times> Timeline" where
  "requestAnimationFrame cb t =
     (nextHandle t, t\<lparr>frames := frames t @ [(nextHandle t, cb)], nextHandle := Suc (nextHandle t)\<rparr>)"

definition cancelAnimationFrame :: "nat \<Rightarrow> Timeline \<Rightarrow> Timeline" where
  "cancelAnimationFrame h t = t\<lparr>frames := filter (\<lambda>r. fst r \<noteq> h) (frames t)\<rparr>"

text \<open>\<^verbatim>\<open>this.animRequest = requestAnimationFrame(playFrame)\<close>\<close>

definition requestPlayFrame :: "Timeline \<Rightarrow> Timeline" where
  "requestPlayFrame t =
     (case requestAnimationFrame PlayFrame t of (h, t') \<Rightarrow> t'\<lparr>animRequest := Some h\<rparr>)"

subsection \<open>Playback\<close>

text \<open>\<^verbatim>\<open>onStartPlaying\<close> makes a new closure, whose \<^verbatim>\<open>lastTime\<close> is undefined, and requests
  its first frame (the call of \<^verbatim>\<open>Analytics\<close> only logs).\<close>

definition onStartPlaying :: "Timeline \<Rightarrow> Timeline" where
  "onStartPlaying t = requestPlayFrame (t\<lparr>lastTime := None\<rparr>)"

definition onStopPlaying :: "Timeline \<Rightarrow> Timeline" where
  "onStopPlaying t = (case animRequest t of Some h \<Rightarrow> cancelAnimationFrame h t | None \<Rightarrow> t)"

definition ticksPerSec :: real where
  "ticksPerSec = 5"

text \<open>\<^verbatim>\<open>Array.prototype.indexOf\<close>: the first index of the value, or -1.\<close>

fun indexOf :: "'a list \<Rightarrow> 'a \<Rightarrow> int" where
  "indexOf [] x = - 1"
| "indexOf (y # ys) x =
     (if y = x then 0 else (let i = indexOf ys x in if i < 0 then - 1 else i + 1))"

text \<open>\<^verbatim>\<open>xs[i]\<close>: \<^verbatim>\<open>undefined\<close> outside the array.\<close>

definition elementAt :: "'a list \<Rightarrow> int \<Rightarrow> 'a option" where
  "elementAt xs i = (if 0 \<le> i \<and> i < int (length xs) then Some (xs ! nat i) else None)"

text \<open>
  The body of the action \<^verbatim>\<open>playFrame\<close>. With \<^verbatim>\<open>nextYear\<close> undefined the source computes NaN
  for the end bound: \<open>NonFinite\<close>.
\<close>

definition playFrame :: "real \<Rightarrow> Timeline \<Rightarrow> error + Timeline" where
  "playFrame time t =
     (if \<not> isPlaying t then Inr t
      else case lastTime t of
        None \<Rightarrow>
          Inr (requestPlayFrame
            ((if endYearUI t \<ge> maxYear t
              then t\<lparr>startYearRaw := Concrete (minYear t), endYearRaw := Concrete (minYear t)\<rparr>
              else t)\<lparr>lastTime := Some time\<rparr>))
      | Some lt \<Rightarrow>
          (let elapsed = time - lt in
           if endYearUI t \<ge> maxYear t
           then Inr (requestPlayFrame (t\<lparr>isPlaying := False, lastTime := Some time\<rparr>))
           else
             (case elementAt (years (props t)) (indexOf (years (props t)) (endYearUI t) + 1) of
                None \<Rightarrow> Inl NonFinite
              | Some nextYear \<Rightarrow>
                  (let yearsToNext = nextYear - endYearUI t;
                       t1 = t\<lparr>endYearRaw :=
                              Concrete (endYearUI t
                                + (max (yearsToNext / 3) 1 * elapsed * ticksPerSec) / 1000)\<rparr>;
                       t2 = (if singleYearMode (props t) \<or> singleYearPlay (props t)
                             then t1\<lparr>startYearRaw := endYearRaw t1\<rparr> else t1)
                   in Inr (requestPlayFrame (t2\<lparr>lastTime := Some time\<rparr>))))))"

subsection \<open>Dragging\<close>

text \<open>With \<^verbatim>\<open>base.current\<close> null the non-null assertion throws a \<^verbatim>\<open>TypeError\<close>; with a
  slider of width 0 the quotient is not a finite number.\<close>

definition getInputYearFromMouse :: "Timeline \<Rightarrow> MouseEvt \<Rightarrow> error + Time" where
  "getInputYearFromMouse t evt =
     (case sliderWidth t of
        None \<Rightarrow> Inl TypeError
      | Some width \<Rightarrow>
          if width = 0 then Inl NonFinite
          else (let fracWidth = mouseX evt / width
                in Inr (minYear t + fracWidth * (maxYear t - minYear t))))"

text \<open>
  \<^verbatim>\<open>getBoundFromTimeRange\<close> (\<^verbatim>\<open>./TimeBounds\<close>) is missing and the spec does not describe it:
  the functions that call it take it as their first argument.
\<close>

type_synonym BoundFromTimeRange = "Time \<times> Time \<Rightarrow> Time \<Rightarrow> TimeBound"

definition onStartYearChange :: "BoundFromTimeRange \<Rightarrow> Timeline \<Rightarrow> Time \<Rightarrow> Timeline" where
  "onStartYearChange getBoundFromTimeRange t inputYear =
     t\<lparr>startYearRaw := getBoundFromTimeRange (timeDomain t) inputYear\<rparr>"

definition onEndYearChange :: "BoundFromTimeRange \<Rightarrow> Timeline \<Rightarrow> Time \<Rightarrow> Timeline" where
  "onEndYearChange getBoundFromTimeRange t inputYear =
     t\<lparr>endYearRaw := getBoundFromTimeRange (timeDomain t) inputYear\<rparr>"

definition onSingleYearChange :: "BoundFromTimeRange \<Rightarrow> Timeline \<Rightarrow> Time \<Rightarrow> Timeline" where
  "onSingleYearChange getBoundFromTimeRange t inputYear =
     (let year = getBoundFromTimeRange (timeDomain t) inputYear
      in t\<lparr>startYearRaw := year, endYearRaw := year\<rparr>)"

fun onRangeYearChange :: "BoundFromTimeRange \<Rightarrow> Timeline \<Rightarrow> Time \<times> Time \<Rightarrow> Timeline" where
  "onRangeYearChange getBoundFromTimeRange t (startYear', endYear') =
     t\<lparr>startYearRaw := getBoundFromTimeRange (timeDomain t) startYear',
       endYearRaw := getBoundFromTimeRange (timeDomain t) endYear'\<rparr>"

definition onDrag :: "BoundFromTimeRange \<Rightarrow> Timeline \<Rightarrow> Time \<Rightarrow> Timeline" where
  "onDrag getBoundFromTimeRange t inputYear =
     (let clampedYear = getClampedYear t inputYear in
      if singleYearMode (props t) \<or> (isPlaying t \<and> singleYearPlay (props t))
      then onSingleYearChange getBoundFromTimeRange t clampedYear
      else if dragTarget t = Some Start
      then onStartYearChange getBoundFromTimeRange t clampedYear
      else if dragTarget t = Some End
      then onEndYearChange getBoundFromTimeRange t clampedYear
      else if dragTarget t = Some Both
      then
        (let startYear' = fst (dragOffsets t) + inputYear;
             endYear' = snd (dragOffsets t) + inputYear
         in onRangeYearChange getBoundFromTimeRange t
              (if startYear' < minYear t
               then (minYear t,
                     getClampedYear t (minYear t + (snd (dragOffsets t) - fst (dragOffsets t))))
               else if endYear' > maxYear t
               then (getClampedYear t (maxYear t + (fst (dragOffsets t) - snd (dragOffsets t))),
                     maxYear t)
               else (startYear', endYear')))
      else t)"

definition onMouseDown :: "BoundFromTimeRange \<Rightarrow> Timeline \<Rightarrow> MouseEvt \<Rightarrow> error + Timeline" where
  "onMouseDown getBoundFromTimeRange t e =
     (if toggle e then Inr t
      else case getInputYearFromMouse t e of
        Inl err \<Rightarrow> Inl err
      | Inr inputYear \<Rightarrow>
          (let target =
                 (if startYearUI t = endYearUI t \<and> (startMarker e \<or> endMarker e) then Both
                  else if \<not> singleYearMode (props t)
                          \<and> (startMarker e \<or> inputYear \<le> startYearUI t) then Start
                  else if \<not> singleYearMode (props t)
                          \<and> (endMarker e \<or> inputYear \<ge> endYearUI t) then End
                  else Both);
               t1 = t\<lparr>dragTarget := Some target\<rparr>;
               t2 = (if dragTarget t1 = Some Both
                     then t1\<lparr>dragOffsets := (startYearUI t1 - inputYear, endYearUI t1 - inputYear)\<rparr>
                     else t1)
           in Inr (onDrag getBoundFromTimeRange t2 inputYear)))"

text \<open>\<^verbatim>\<open>if (queuedAnimationFrame)\<close> is false for an undefined handle and for the handle 0.\<close>

definition onMouseMove :: "Timeline \<Rightarrow> MouseEvt \<Rightarrow> Timeline" where
  "onMouseMove t ev =
     (if dragTarget t = None then t
      else
        (let t1 = (case queuedAnimationFrame t of
                     Some h \<Rightarrow> if h \<noteq> 0 then cancelAnimationFrame h t else t
                   | None \<Rightarrow> t)
         in case requestAnimationFrame (DragFrame ev) t1 of
              (h, t2) \<Rightarrow> t2\<lparr>queuedAnimationFrame := Some h\<rparr>))"


definition onTogglePlay :: "Timeline \<Rightarrow> Timeline" where
  "onTogglePlay t = t\<lparr>isPlaying := \<not> isPlaying t\<rparr>"

subsection \<open>Life cycle and reactions\<close>

definition Timeline_constructor :: "TimelineProps \<Rightarrow> Timeline" where
  "Timeline_constructor p =
     \<lparr>props = p, isPlaying = False, dragTarget = None,
      startYearRaw = UnboundedLeft, endYearRaw = UnboundedRight,
      animRequest = None, dragOffsets = (0, 0), queuedAnimationFrame = None,
      lastTime = None, frames = [], nextHandle = 1, sliderWidth = None,
      listening = False, reacting = False, targetChanges = [], debounceMode = False,
      console = (if length (years p) = 0
                 then [''invoking HTMLTimeline with empty years array''] else [])\<rparr>"


text \<open>The four \<^verbatim>\<open>autorun\<close>s of \<^verbatim>\<open>componentDidMount\<close>, in the order of the source.\<close>

definition autorunPlaying :: "Timeline \<Rightarrow> Timeline" where
  "autorunPlaying t = (if isPlaying t then onStartPlaying t else onStopPlaying t)"

definition autorunDebounce :: "Timeline \<Rightarrow> Timeline" where
  "autorunDebounce t =
     (if isPlaying t \<or> isDragging t then t\<lparr>debounceMode := True\<rparr>
      else t\<lparr>debounceMode := False\<rparr>)"

definition autorunTargetChange :: "Timeline \<Rightarrow> Timeline" where
  "autorunTargetChange t =
     t\<lparr>targetChanges := targetChanges t @ [(startYearClosest t, endYearClosest t)]\<rparr>"

text \<open>The pair is assigned at once: both right-hand sides are read in the old state.\<close>

definition autorunIdleSnap :: "Timeline \<Rightarrow> Timeline" where
  "autorunIdleSnap t =
     (if \<not> isPlaying t \<and> \<not> isDragging t
      then t\<lparr>startYearRaw := startYearClosest t, endYearRaw := endYearClosest t\<rparr>
      else t)"

text \<open>
  MobX runs an \<^verbatim>\<open>autorun\<close> again when an observable that it read in its last run has
  changed, at the end of the outermost action; reads inside \<^verbatim>\<open>runInAction\<close> are not
  tracked. So the first reaction follows \<open>isPlaying\<close>, the second and the fourth follow
  \<open>isPlaying\<close> and \<open>isDragging\<close>, and the third, which is delayed to the next task, follows
  the two snapped bounds. \<open>react old new\<close> runs them after an action that took the state
  from \<open>old\<close> to \<open>new\<close>.
\<close>

definition react :: "Timeline \<Rightarrow> Timeline \<Rightarrow> Timeline" where
  "react old new =
     (if \<not> reacting new then new
      else
        (let changed = (isPlaying new \<noteq> isPlaying old \<or> isDragging new \<noteq> isDragging old);
             t1 = (if isPlaying new \<noteq> isPlaying old then autorunPlaying new else new);
             t2 = (if changed then autorunDebounce t1 else t1);
             t3 = (if changed then autorunIdleSnap t2 else t2)
         in if (startYearClosest t3, endYearClosest t3)
                 \<noteq> (startYearClosest old, endYearClosest old)
            then autorunTargetChange t3 else t3))"

text \<open>Each reaction runs once when it is created; the third is delayed, so it runs after
  the fourth.\<close>

definition componentDidMount :: "Timeline \<Rightarrow> Timeline" where
  "componentDidMount t =
     (let t1 = t\<lparr>startYearRaw := startYearProp (props t), endYearRaw := endYearProp (props t)\<rparr>;
          t2 = t1\<lparr>listening := True\<rparr>;
          t3 = autorunIdleSnap (autorunDebounce (autorunPlaying t2))
      in (autorunTargetChange t3)\<lparr>reacting := True\<rparr>)"

definition componentWillUnmount :: "Timeline \<Rightarrow> Timeline" where
  "componentWillUnmount t = t\<lparr>listening := False, reacting := False\<rparr>"

text \<open>React attaches the ref \<^verbatim>\<open>base\<close> when it renders the component, before
  \<^verbatim>\<open>componentDidMount\<close>, and clears it when the component is unmounted.\<close>

definition mount :: "real \<Rightarrow> TimelineProps \<Rightarrow> Timeline" where
  "mount width p = componentDidMount ((Timeline_constructor p)\<lparr>sliderWidth := Some width\<rparr>)"

definition unmount :: "Timeline \<Rightarrow> Timeline" where
  "unmount t = (componentWillUnmount t)\<lparr>sliderWidth := None\<rparr>"

text \<open>The two quotients of \<^verbatim>\<open>render\<close>; a division by zero is \<open>NonFinite\<close>.\<close>

definition startYearProgress :: "Timeline \<Rightarrow> error + real" where
  "startYearProgress t =
     (if maxYear t - minYear t = 0 then Inl NonFinite
      else Inr ((startYearUI t - minYear t) / (maxYear t - minYear t)))"

definition endYearProgress :: "Timeline \<Rightarrow> error + real" where
  "endYearProgress t =
     (if maxYear t - minYear t = 0 then Inl NonFinite
      else Inr ((endYearUI t - minYear t) / (maxYear t - minYear t)))"

subsection \<open>Events\<close>

text \<open>An event is its handler, an action, followed by the reactions. The document
  listeners exist between \<^verbatim>\<open>componentDidMount\<close> and \<^verbatim>\<open>componentWillUnmount\<close>.\<close>

definition mouseDown :: "BoundFromTimeRange \<Rightarrow> MouseEvt \<Rightarrow> Timeline \<Rightarrow> error + Timeline" where
  "mouseDown getBoundFromTimeRange e t =
     (case onMouseDown getBoundFromTimeRange t e of
        Inl err \<Rightarrow> Inl err
      | Inr t' \<Rightarrow> Inr (react t t'))"

definition mouseMove :: "MouseEvt \<Rightarrow> Timeline \<Rightarrow> Timeline" where
  "mouseMove ev t = (if listening t then react t (onMouseMove t ev) else t)"


definition togglePlay :: "Timeline \<Rightarrow> Timeline" where
  "togglePlay t = react t (onTogglePlay t)"

definition runCallback ::
  "BoundFromTimeRange \<Rightarrow> real \<Rightarrow> FrameCallback \<Rightarrow> Timeline \<Rightarrow> error + Timeline" where
  "runCallback getBoundFromTimeRange time cb t =
     (case cb of
        PlayFrame \<Rightarrow>
          (case playFrame time t of Inl err \<Rightarrow> Inl err | Inr t' \<Rightarrow> Inr (react t t'))
      | DragFrame ev \<Rightarrow>
          (case getInputYearFromMouse t ev of
             Inl err \<Rightarrow> Inl err
           | Inr inputYear \<Rightarrow> Inr (react t (onDrag getBoundFromTimeRange t inputYear))))"

text \<open>The browser's frame at \<open>time\<close>: every request pending when the frame starts is taken
  off the list and its callback run, unless it was cancelled meanwhile; the first error
  ends the evaluation.\<close>

fun fireFrames ::
  "BoundFromTimeRange \<Rightarrow> real \<Rightarrow> (nat \<times> FrameCallback) list \<Rightarrow> Timeline \<Rightarrow> error + Timeline" where
  "fireFrames getBoundFromTimeRange time [] t = Inr t"
| "fireFrames getBoundFromTimeRange time (r # rs) t =
     (if r \<notin> set (frames t) then fireFrames getBoundFromTimeRange time rs t
      else case runCallback getBoundFromTimeRange time (snd r)
                  (t\<lparr>frames := filter (\<lambda>q. fst q \<noteq> fst r) (frames t)\<rparr>) of
             Inl err \<Rightarrow> Inl err
           | Inr t' \<Rightarrow> fireFrames getBoundFromTimeRange time rs t')"

definition animationFrame :: "BoundFromTimeRange \<Rightarrow> real \<Rightarrow> Timeline \<Rightarrow> error + Timeline" where
  "animationFrame getBoundFromTimeRange time t =
     fireFrames getBoundFromTimeRange time (frames t) t"

text \<open>
  Modelled from the spec: an instance of the missing \<^verbatim>\<open>getBoundFromTimeRange\<close>, for the runs on
  concrete inputs. The spec has a pointer move set a bound to the clamped year: the bound
  is that concrete year.
\<close>

definition yearBound :: BoundFromTimeRange where
  "yearBound domain time = Concrete time"

subsection \<open>Example configurations\<close>

text \<open>Props without the single-year modes, the axis of the spec's scenarios, and a pointer
  event at \<open>x\<close> on no marker.\<close>

definition timelineProps :: "Time list \<Rightarrow> TimeBound \<Rightarrow> TimeBound \<Rightarrow> TimelineProps" where
  "timelineProps ys s e =
     \<lparr>years = ys, startYearProp = s, endYearProp = e,
      singleYearMode = False, singleYearPlay = False, disablePlay = False\<rparr>"

definition fiveYears :: "Time list" where
  "fiveYears = [1990, 1995, 2000, 2005, 2010]"

definition pointerAt :: "real \<Rightarrow> MouseEvt" where
  "pointerAt x = \<lparr>mouseX = x, toggle = False, startMarker = False, endMarker = False\<rparr>"

text \<open>Sequencing of steps that can fail.\<close>

definition andThen :: "error + 'a \<Rightarrow> ('a \<Rightarrow> error + 'b) \<Rightarrow> error + 'b" where
  "andThen r f = (case r of Inl err \<Rightarrow> Inl err | Inr x \<Rightarrow> f x)"

text \<open>The component on an empty axis, rendered on a slider 100 wide.\<close>

definition emptyAxis :: Timeline where
  "emptyAxis =
     (Timeline_constructor (timelineProps [] UnboundedLeft UnboundedRight))
       \<lparr>sliderWidth := Some 100\<rparr>"

text \<open>The range 1995 to 2005 with the pointer down at 2000 on the interval (the drag
  target is both handles), and with the pointer down on the start handle.\<close>

definition rangePressed :: Timeline where
  "rangePressed =
     (Timeline_constructor (timelineProps fiveYears (Concrete 1995) (Concrete 2005)))
       \<lparr>dragTarget := Some Both, startYearRaw := Concrete 1995, endYearRaw := Concrete 2005,
        dragOffsets := (- 5, 5), sliderWidth := Some 100, listening := True, reacting := True,
        targetChanges := [(Concrete 1995, Concrete 2005)], debounceMode := True\<rparr>"


text \<open>The state that mounting on a slider 100 wide leaves when the props' bounds snap to
  \<open>s\<close> and \<open>e\<close>.\<close>

definition mounted :: "TimelineProps \<Rightarrow> TimeBound \<Rightarrow> TimeBound \<Rightarrow> Timeline" where
  "mounted p s e =
     (Timeline_constructor p)
       \<lparr>startYearRaw := s, endYearRaw := e, sliderWidth := Some 100, listening := True,
        reacting := True, targetChanges := [(s, e)]\<rparr>"

text \<open>Single-year mode: the state in which \<open>onMouseDown\<close> calls \<open>onDrag\<close> after a
  pointer-down at 2000.\<close>

definition singleProps :: TimelineProps where
  "singleProps =
     (timelineProps fiveYears (Concrete 1995) (Concrete 2005))\<lparr>singleYearMode := True\<rparr>"

definition singlePressed :: Timeline where
  "singlePressed =
     (mounted singleProps (Concrete 1995) (Concrete 2005))
       \<lparr>dragTarget := Some Both, dragOffsets := (- 5, 5)\<rparr>"

text \<open>Playback just started, with the end at the maximum year and with the end at 1995;
  the latter after its first tick at time 0.\<close>

definition playingAtEnd :: Timeline where
  "playingAtEnd =
     (mounted (timelineProps fiveYears (Concrete 1990) (Concrete 2010))
        (Concrete 1990) (Concrete 2010))
       \<lparr>isPlaying := True, animRequest := Some 1, frames := [(1, PlayFrame)], nextHandle := 2,
        debounceMode := True\<rparr>"

definition playingFrom1995 :: Timeline where
  "playingFrom1995 =
     (mounted (timelineProps fiveYears (Concrete 1990) (Concrete 1995))
        (Concrete 1990) (Concrete 1995))
       \<lparr>isPlaying := True, animRequest := Some 1, frames := [(1, PlayFrame)], nextHandle := 2,
        debounceMode := True\<rparr>"

definition afterFirstTick :: Timeline where
  "afterFirstTick =
     playingFrom1995\<lparr>lastTime := Some 0, animRequest := Some 2, frames := [(2, PlayFrame)],
                     nextHandle := 3\<rparr>"


section \<open>Resolved bounds\<close>


section \<open>Snapping to the year axis\<close>

lemma findClosestYear_None: "(findClosestYear ys x = None) = (ys = [])"
  by (induction ys) (auto split: option.splits)

lemma findClosestYear_member: "findClosestYear ys x = Some c \<Longrightarrow> c \<in> set ys"
  by (induction ys arbitrary: c) (auto split: option.splits if_splits)

lemma findClosestYear_nearest_all:
  "findClosestYear ys x = Some c \<Longrightarrow> \<forall>y \<in> set ys. \<bar>c - x\<bar> \<le> \<bar>y - x\<bar>"
proof (induction ys arbitrary: c)
  case Nil
  then show ?case by simp
next
  case (Cons z zs)
  show ?case
  proof (cases "findClosestYear zs x")
    case None
    then have "zs = []" by (simp add: findClosestYear_None)
    with Cons.prems None show ?thesis by simp
  next
    case (Some d)
    have far: "\<forall>v \<in> set zs. \<bar>d - x\<bar> \<le> \<bar>v - x\<bar>"
      using Cons.IH [OF Some] .
    from Cons.prems Some far show ?thesis
      by (fastforce split: if_splits)
  qed
qed

lemma findClosestYear_nearest:
  "findClosestYear ys x = Some c \<Longrightarrow> y \<in> set ys \<Longrightarrow> \<bar>c - x\<bar> \<le> \<bar>y - x\<bar>"
  using findClosestYear_nearest_all by blast

lemma findClosestYear_idem:
  assumes "c \<in> set ys"
  shows "findClosestYear ys c = Some c"
proof -
  from assms have "ys \<noteq> []" by auto
  then obtain d where d: "findClosestYear ys c = Some d"
    using findClosestYear_None [of ys c] by (cases "findClosestYear ys c") auto
  from findClosestYear_nearest [OF d assms] have "d = c" by simp
  with d show ?thesis by simp
qed

lemma findClosestYear_mono:
  assumes "x \<le> y" and cx: "findClosestYear ys x = Some cx" and cy: "findClosestYear ys y = Some cy"
  shows "cx \<le> cy"
proof (rule ccontr)
  assume "\<not> cx \<le> cy"
  then have lt: "cy < cx" by simp
  have "x \<noteq> y" using cx cy lt by auto
  with assms(1) have xy: "x < y" by simp
  have 1: "\<bar>cx - x\<bar> \<le> \<bar>cy - x\<bar>"
    using findClosestYear_nearest [OF cx findClosestYear_member [OF cy]] .
  have 2: "\<bar>cy - y\<bar> \<le> \<bar>cx - y\<bar>"
    using findClosestYear_nearest [OF cy findClosestYear_member [OF cx]] .
  from 1 2 lt xy show False by arith
qed

lemma bound_le_simps [simp]:
  "UnboundedLeft \<le> b" "b \<le> UnboundedRight"
  "(Concrete x \<le> Concrete y) = (x \<le> y)"
  "(Concrete x \<le> UnboundedLeft) = False"
  "(UnboundedRight \<le> Concrete x) = False"
  "(UnboundedRight \<le> UnboundedLeft) = False"
  by (cases b; simp add: less_eq_TimeBound_def)+

lemma getClosest_unbounded: "isUnbounded b \<Longrightarrow> getClosest t b d = b"
  by (simp add: getClosest_def)

lemma getClosest_mono:
  "lo \<le> hi \<Longrightarrow> getClosest t lo UnboundedLeft \<le> getClosest t hi UnboundedRight"
  by (cases lo; cases hi)
     (auto simp: getClosest_def isUnbounded_def split: option.splits
           dest: findClosestYear_mono simp: findClosestYear_None)

lemma getClosest_idem:
  "isUnbounded d \<Longrightarrow> getClosest t (getClosest t b d) d' = getClosest t b d"
  by (cases b; cases d)
     (auto simp: getClosest_def isUnbounded_def findClosestYear_idem
           split: option.splits dest: findClosestYear_member)

text \<open>
  C6, as the code has it. Snapping returns a sentinel unchanged. On an axis with at least
  one year it returns a concrete bound's nearest year of the axis, by absolute distance.
  On an empty axis there is no such year, and it returns the default that the caller
  passes (\<open>startYearClosest\<close> the left sentinel, \<open>endYearClosest\<close> the right one).
\<close>

theorem getClosest_snaps:
  "(isUnbounded b \<longrightarrow> getClosest t b d = b)
   \<and> (years (props t) \<noteq> [] \<longrightarrow>
        (\<exists>c \<in> set (years (props t)). getClosest t (Concrete y) d = Concrete c
           \<and> (\<forall>z \<in> set (years (props t)). \<bar>c - y\<bar> \<le> \<bar>z - y\<bar>)))
   \<and> (years (props t) = [] \<longrightarrow> getClosest t (Concrete y) d = d)"
proof (intro conjI impI)
  assume "isUnbounded b"
  then show "getClosest t b d = b" by (rule getClosest_unbounded)
next
  assume "years (props t) \<noteq> []"
  then obtain c where c: "findClosestYear (years (props t)) y = Some c"
    using findClosestYear_None [of "years (props t)" y]
    by (cases "findClosestYear (years (props t)) y") auto
  have "getClosest t (Concrete y) d = Concrete c"
    using c by (simp add: getClosest_def isUnbounded_def)
  with findClosestYear_member [OF c] findClosestYear_nearest_all [OF c]
  show "\<exists>c \<in> set (years (props t)). getClosest t (Concrete y) d = Concrete c
           \<and> (\<forall>z \<in> set (years (props t)). \<bar>c - y\<bar> \<le> \<bar>z - y\<bar>)"
    by blast
next
  assume "years (props t) = []"
  then show "getClosest t (Concrete y) d = d"
    by (simp add: getClosest_def isUnbounded_def)
qed

lemma props_constructor [simp]: "props (Timeline_constructor p) = p"
  by (simp add: Timeline_constructor_def)

theorem getClosest_snaps_witness:
  "getClosest (Timeline_constructor (timelineProps fiveYears UnboundedLeft UnboundedRight))
     UnboundedRight UnboundedLeft = UnboundedRight
   \<and> getClosest (Timeline_constructor (timelineProps fiveYears UnboundedLeft UnboundedRight))
       (Concrete 1998) UnboundedLeft = Concrete 2000
   \<and> getClosest (Timeline_constructor (timelineProps [] UnboundedLeft UnboundedRight))
       (Concrete 1998) UnboundedRight = UnboundedRight"
  using getClosest_snaps [of UnboundedRight
      "Timeline_constructor (timelineProps fiveYears UnboundedLeft UnboundedRight)"
      UnboundedLeft 1998]
    getClosest_snaps [of UnboundedRight
      "Timeline_constructor (timelineProps [] UnboundedLeft UnboundedRight)"
      UnboundedRight 1998]
  by (simp add: getClosest_def isUnbounded_def timelineProps_def fiveYears_def)

text \<open>On the empty axis, snapping the concrete year 2000 gives the default sentinel, which
  is no element of the axis.\<close>

theorem getClosest_empty_axis_counterexample:
  "getClosest (Timeline_constructor (timelineProps [] UnboundedLeft UnboundedRight))
     (Concrete 2000) UnboundedLeft = UnboundedLeft
   \<and> getClosest (Timeline_constructor (timelineProps [] UnboundedLeft UnboundedRight))
       (Concrete 2000) UnboundedLeft
     \<notin> Concrete ` set (years (timelineProps [] UnboundedLeft UnboundedRight))"
  by (simp add: getClosest_def isUnbounded_def timelineProps_def)

section \<open>Resolution for the UI\<close>

text \<open>
  C7, as the code has it. \<open>getYearUI\<close> maps the left sentinel to the minimum year and the
  right sentinel to the maximum year; a concrete year it returns as it is, which is the
  clamped year exactly when the year lies between the minimum and the maximum.
\<close>

theorem getYearUI_resolves:
  "getYearUI t UnboundedLeft = minYear t
   \<and> getYearUI t UnboundedRight = maxYear t
   \<and> getYearUI t (Concrete y) = y
   \<and> (minYear t \<le> y \<and> y \<le> maxYear t \<longrightarrow> getYearUI t (Concrete y) = getClampedYear t y)"
  by (simp add: getClampedYear_def)

theorem getYearUI_resolves_witness:
  "getYearUI (Timeline_constructor (timelineProps fiveYears UnboundedLeft UnboundedRight))
     UnboundedLeft = 1990
   \<and> getYearUI (Timeline_constructor (timelineProps fiveYears UnboundedLeft UnboundedRight))
       UnboundedRight = 2010
   \<and> getYearUI (Timeline_constructor (timelineProps fiveYears UnboundedLeft UnboundedRight))
       (Concrete 1998) = 1998
   \<and> getClampedYear (Timeline_constructor (timelineProps fiveYears UnboundedLeft UnboundedRight))
       1998 = 1998"
  using getYearUI_resolves
    [of "Timeline_constructor (timelineProps fiveYears UnboundedLeft UnboundedRight)" 1998]
  by (simp add: minYear_def maxYear_def timelineProps_def fiveYears_def)

text \<open>On the axis 1990 to 2010 the concrete bound 1800 resolves to 1800, below the
  minimum year; the clamped year is 1990.\<close>

theorem getYearUI_unclamped_counterexample:
  "getYearUI (Timeline_constructor (timelineProps fiveYears UnboundedLeft UnboundedRight))
     (Concrete 1800) = 1800
   \<and> getClampedYear (Timeline_constructor (timelineProps fiveYears UnboundedLeft UnboundedRight))
       1800 = 1990
   \<and> getYearUI (Timeline_constructor (timelineProps fiveYears UnboundedLeft UnboundedRight))
       (Concrete 1800)
     < minYear (Timeline_constructor (timelineProps fiveYears UnboundedLeft UnboundedRight))"
  by (simp add: getClampedYear_def minYear_def maxYear_def timelineProps_def fiveYears_def)

section \<open>The empty year axis\<close>

text \<open>
  C8. With an empty year axis the constructor returns the component and logs one warning;
  \<open>minYear\<close> and \<open>maxYear\<close> are the defaults 1900 and 2000, so the domain of the position
  arithmetic is 100 years wide: the quotients of \<open>render\<close> and the input year of a pointer
  position (on a slider of nonzero width) are finite numbers.
\<close>

theorem empty_axis_defaults:
  assumes "years (props t) = []"
  shows "console (Timeline_constructor (props t))
           = [''invoking HTMLTimeline with empty years array'']
         \<and> minYear t = 1900 \<and> maxYear t = 2000
         \<and> minYear t = DEFAULT_MIN_YEAR \<and> maxYear t = DEFAULT_MAX_YEAR
         \<and> maxYear t - minYear t = 100
         \<and> startYearProgress t = Inr ((startYearUI t - 1900) / 100)
         \<and> endYearProgress t = Inr ((endYearUI t - 1900) / 100)
         \<and> (sliderWidth t = Some w \<and> w \<noteq> 0 \<longrightarrow>
              getInputYearFromMouse t evt = Inr (1900 + (mouseX evt / w) * 100))"
  using assms
  by (simp add: Timeline_constructor_def minYear_def maxYear_def DEFAULT_MIN_YEAR_def
        DEFAULT_MAX_YEAR_def startYearProgress_def endYearProgress_def
        getInputYearFromMouse_def)


lemma emptyAxis_fields:
  "years (props emptyAxis) = []" "sliderWidth emptyAxis = Some 100"
  "startYearRaw emptyAxis = UnboundedLeft" "endYearRaw emptyAxis = UnboundedRight"
  by (simp_all add: emptyAxis_def Timeline_constructor_def timelineProps_def)

theorem empty_axis_defaults_witness:
  "console (Timeline_constructor (props emptyAxis))
     = [''invoking HTMLTimeline with empty years array'']
   \<and> minYear emptyAxis = 1900
   \<and> maxYear emptyAxis = 2000
   \<and> startYearProgress emptyAxis = Inr 0
   \<and> endYearProgress emptyAxis = Inr 1
   \<and> getInputYearFromMouse emptyAxis (pointerAt 50) = Inr 1950"
proof -
  have ui: "startYearUI emptyAxis = 1900" "endYearUI emptyAxis = 2000"
    by (simp_all add: startYearUI_def endYearUI_def startYear_def endYear_def emptyAxis_fields
          minYear_def maxYear_def DEFAULT_MIN_YEAR_def DEFAULT_MAX_YEAR_def)
  have x: "mouseX (pointerAt 50) = 50" by (simp add: pointerAt_def)
  show ?thesis
    using empty_axis_defaults [OF emptyAxis_fields(1), of 100 "pointerAt 50"]
    by (simp add: ui x emptyAxis_fields)
qed

text \<open>Playback is another matter: on an empty axis the next year is undefined, and a tick
  that would advance makes the end bound NaN.\<close>

lemma empty_axis_playback:
  assumes "years (props t) = []" and "isPlaying t" and "lastTime t = Some before"
    and "endYearUI t < 2000"
  shows "playFrame time t = Inl NonFinite"
  using assms
  by (simp add: playFrame_def maxYear_def DEFAULT_MAX_YEAR_def elementAt_def Let_def)

section \<open>Dragging\<close>



lemma getYearUI_props: "props t' = props t \<Longrightarrow> getYearUI t' b = getYearUI t b"
  by (cases b) (simp_all add: minYear_def maxYear_def)



lemma fiveYears_props:
  "years (timelineProps fiveYears s e) = [1990, 1995, 2000, 2005, 2010]"
  "singleYearMode (timelineProps ys s e) = False"
  "singleYearPlay (timelineProps ys s e) = False"
  by (simp_all add: timelineProps_def fiveYears_def)







section \<open>What the accessors read\<close>

text \<open>The accessors read the props and the two raw bounds only.\<close>

lemma axis_update [simp]:
  "minYear (t\<lparr>isPlaying := v_isPlaying\<rparr>) = minYear t"
  "minYear (t\<lparr>dragTarget := v_dragTarget\<rparr>) = minYear t"
  "minYear (t\<lparr>animRequest := v_animRequest\<rparr>) = minYear t"
  "minYear (t\<lparr>dragOffsets := v_dragOffsets\<rparr>) = minYear t"
  "minYear (t\<lparr>queuedAnimationFrame := v_queuedAnimationFrame\<rparr>) = minYear t"
  "minYear (t\<lparr>lastTime := v_lastTime\<rparr>) = minYear t"
  "minYear (t\<lparr>frames := v_frames\<rparr>) = minYear t"
  "minYear (t\<lparr>nextHandle := v_nextHandle\<rparr>) = minYear t"
  "minYear (t\<lparr>sliderWidth := v_sliderWidth\<rparr>) = minYear t"
  "minYear (t\<lparr>listening := v_listening\<rparr>) = minYear t"
  "minYear (t\<lparr>reacting := v_reacting\<rparr>) = minYear t"
  "minYear (t\<lparr>targetChanges := v_targetChanges\<rparr>) = minYear t"
  "minYear (t\<lparr>debounceMode := v_debounceMode\<rparr>) = minYear t"
  "minYear (t\<lparr>console := v_console\<rparr>) = minYear t"
  "maxYear (t\<lparr>isPlaying := v_isPlaying\<rparr>) = maxYear t"
  "maxYear (t\<lparr>dragTarget := v_dragTarget\<rparr>) = maxYear t"
  "maxYear (t\<lparr>animRequest := v_animRequest\<rparr>) = maxYear t"
  "maxYear (t\<lparr>dragOffsets := v_dragOffsets\<rparr>) = maxYear t"
  "maxYear (t\<lparr>queuedAnimationFrame := v_queuedAnimationFrame\<rparr>) = maxYear t"
  "maxYear (t\<lparr>lastTime := v_lastTime\<rparr>) = maxYear t"
  "maxYear (t\<lparr>frames := v_frames\<rparr>) = maxYear t"
  "maxYear (t\<lparr>nextHandle := v_nextHandle\<rparr>) = maxYear t"
  "maxYear (t\<lparr>sliderWidth := v_sliderWidth\<rparr>) = maxYear t"
  "maxYear (t\<lparr>listening := v_listening\<rparr>) = maxYear t"
  "maxYear (t\<lparr>reacting := v_reacting\<rparr>) = maxYear t"
  "maxYear (t\<lparr>targetChanges := v_targetChanges\<rparr>) = maxYear t"
  "maxYear (t\<lparr>debounceMode := v_debounceMode\<rparr>) = maxYear t"
  "maxYear (t\<lparr>console := v_console\<rparr>) = maxYear t"
  by (simp_all add: minYear_def maxYear_def)

lemma axis_raw_update [simp]:
  "minYear (t\<lparr>startYearRaw := a\<rparr>) = minYear t" "minYear (t\<lparr>endYearRaw := a\<rparr>) = minYear t"
  "maxYear (t\<lparr>startYearRaw := a\<rparr>) = maxYear t" "maxYear (t\<lparr>endYearRaw := a\<rparr>) = maxYear t"
  by (simp_all add: minYear_def maxYear_def)

lemma resolved_update [simp]:
  "startYear (t\<lparr>isPlaying := v_isPlaying\<rparr>) = startYear t"
  "startYear (t\<lparr>dragTarget := v_dragTarget\<rparr>) = startYear t"
  "startYear (t\<lparr>animRequest := v_animRequest\<rparr>) = startYear t"
  "startYear (t\<lparr>dragOffsets := v_dragOffsets\<rparr>) = startYear t"
  "startYear (t\<lparr>queuedAnimationFrame := v_queuedAnimationFrame\<rparr>) = startYear t"
  "startYear (t\<lparr>lastTime := v_lastTime\<rparr>) = startYear t"
  "startYear (t\<lparr>frames := v_frames\<rparr>) = startYear t"
  "startYear (t\<lparr>nextHandle := v_nextHandle\<rparr>) = startYear t"
  "startYear (t\<lparr>sliderWidth := v_sliderWidth\<rparr>) = startYear t"
  "startYear (t\<lparr>listening := v_listening\<rparr>) = startYear t"
  "startYear (t\<lparr>reacting := v_reacting\<rparr>) = startYear t"
  "startYear (t\<lparr>targetChanges := v_targetChanges\<rparr>) = startYear t"
  "startYear (t\<lparr>debounceMode := v_debounceMode\<rparr>) = startYear t"
  "startYear (t\<lparr>console := v_console\<rparr>) = startYear t"
  "endYear (t\<lparr>isPlaying := v_isPlaying\<rparr>) = endYear t"
  "endYear (t\<lparr>dragTarget := v_dragTarget\<rparr>) = endYear t"
  "endYear (t\<lparr>animRequest := v_animRequest\<rparr>) = endYear t"
  "endYear (t\<lparr>dragOffsets := v_dragOffsets\<rparr>) = endYear t"
  "endYear (t\<lparr>queuedAnimationFrame := v_queuedAnimationFrame\<rparr>) = endYear t"
  "endYear (t\<lparr>lastTime := v_lastTime\<rparr>) = endYear t"
  "endYear (t\<lparr>frames := v_frames\<rparr>) = endYear t"
  "endYear (t\<lparr>nextHandle := v_nextHandle\<rparr>) = endYear t"
  "endYear (t\<lparr>sliderWidth := v_sliderWidth\<rparr>) = endYear t"
  "endYear (t\<lparr>listening := v_listening\<rparr>) = endYear t"
  "endYear (t\<lparr>reacting := v_reacting\<rparr>) = endYear t"
  "endYear (t\<lparr>targetChanges := v_targetChanges\<rparr>) = endYear t"
  "endYear (t\<lparr>debounceMode := v_debounceMode\<rparr>) = endYear t"
  "endYear (t\<lparr>console := v_console\<rparr>) = endYear t"
  by (simp_all add: startYear_def endYear_def)

lemma getYearUI_update [simp]:
  "getYearUI (t\<lparr>isPlaying := v_isPlaying\<rparr>) b = getYearUI t b"
  "getYearUI (t\<lparr>dragTarget := v_dragTarget\<rparr>) b = getYearUI t b"
  "getYearUI (t\<lparr>animRequest := v_animRequest\<rparr>) b = getYearUI t b"
  "getYearUI (t\<lparr>dragOffsets := v_dragOffsets\<rparr>) b = getYearUI t b"
  "getYearUI (t\<lparr>queuedAnimationFrame := v_queuedAnimationFrame\<rparr>) b = getYearUI t b"
  "getYearUI (t\<lparr>lastTime := v_lastTime\<rparr>) b = getYearUI t b"
  "getYearUI (t\<lparr>frames := v_frames\<rparr>) b = getYearUI t b"
  "getYearUI (t\<lparr>nextHandle := v_nextHandle\<rparr>) b = getYearUI t b"
  "getYearUI (t\<lparr>sliderWidth := v_sliderWidth\<rparr>) b = getYearUI t b"
  "getYearUI (t\<lparr>listening := v_listening\<rparr>) b = getYearUI t b"
  "getYearUI (t\<lparr>reacting := v_reacting\<rparr>) b = getYearUI t b"
  "getYearUI (t\<lparr>targetChanges := v_targetChanges\<rparr>) b = getYearUI t b"
  "getYearUI (t\<lparr>debounceMode := v_debounceMode\<rparr>) b = getYearUI t b"
  "getYearUI (t\<lparr>console := v_console\<rparr>) b = getYearUI t b"
  "getYearUI (t\<lparr>startYearRaw := a\<rparr>) b = getYearUI t b" "getYearUI (t\<lparr>endYearRaw := a\<rparr>) b = getYearUI t b"
  by (rule getYearUI_props, simp)+

lemma getClosest_props: "props t' = props t \<Longrightarrow> getClosest t' b d = getClosest t b d"
  by (cases b) (simp_all add: getClosest_def)

lemma getClosest_update [simp]:
  "getClosest (t\<lparr>isPlaying := v_isPlaying\<rparr>) b d = getClosest t b d"
  "getClosest (t\<lparr>dragTarget := v_dragTarget\<rparr>) b d = getClosest t b d"
  "getClosest (t\<lparr>animRequest := v_animRequest\<rparr>) b d = getClosest t b d"
  "getClosest (t\<lparr>dragOffsets := v_dragOffsets\<rparr>) b d = getClosest t b d"
  "getClosest (t\<lparr>queuedAnimationFrame := v_queuedAnimationFrame\<rparr>) b d = getClosest t b d"
  "getClosest (t\<lparr>lastTime := v_lastTime\<rparr>) b d = getClosest t b d"
  "getClosest (t\<lparr>frames := v_frames\<rparr>) b d = getClosest t b d"
  "getClosest (t\<lparr>nextHandle := v_nextHandle\<rparr>) b d = getClosest t b d"
  "getClosest (t\<lparr>sliderWidth := v_sliderWidth\<rparr>) b d = getClosest t b d"
  "getClosest (t\<lparr>listening := v_listening\<rparr>) b d = getClosest t b d"
  "getClosest (t\<lparr>reacting := v_reacting\<rparr>) b d = getClosest t b d"
  "getClosest (t\<lparr>targetChanges := v_targetChanges\<rparr>) b d = getClosest t b d"
  "getClosest (t\<lparr>debounceMode := v_debounceMode\<rparr>) b d = getClosest t b d"
  "getClosest (t\<lparr>console := v_console\<rparr>) b d = getClosest t b d"
  "getClosest (t\<lparr>startYearRaw := a\<rparr>) b d = getClosest t b d" "getClosest (t\<lparr>endYearRaw := a\<rparr>) b d = getClosest t b d"
  by (rule getClosest_props, simp)+

lemma ui_update [simp]:
  "startYearUI (t\<lparr>isPlaying := v_isPlaying\<rparr>) = startYearUI t"
  "startYearUI (t\<lparr>dragTarget := v_dragTarget\<rparr>) = startYearUI t"
  "startYearUI (t\<lparr>animRequest := v_animRequest\<rparr>) = startYearUI t"
  "startYearUI (t\<lparr>dragOffsets := v_dragOffsets\<rparr>) = startYearUI t"
  "startYearUI (t\<lparr>queuedAnimationFrame := v_queuedAnimationFrame\<rparr>) = startYearUI t"
  "startYearUI (t\<lparr>lastTime := v_lastTime\<rparr>) = startYearUI t"
  "startYearUI (t\<lparr>frames := v_frames\<rparr>) = startYearUI t"
  "startYearUI (t\<lparr>nextHandle := v_nextHandle\<rparr>) = startYearUI t"
  "startYearUI (t\<lparr>sliderWidth := v_sliderWidth\<rparr>) = startYearUI t"
  "startYearUI (t\<lparr>listening := v_listening\<rparr>) = startYearUI t"
  "startYearUI (t\<lparr>reacting := v_reacting\<rparr>) = startYearUI t"
  "startYearUI (t\<lparr>targetChanges := v_targetChanges\<rparr>) = startYearUI t"
  "startYearUI (t\<lparr>debounceMode := v_debounceMode\<rparr>) = startYearUI t"
  "startYearUI (t\<lparr>console := v_console\<rparr>) = startYearUI t"
  "endYearUI (t\<lparr>isPlaying := v_isPlaying\<rparr>) = endYearUI t"
  "endYearUI (t\<lparr>dragTarget := v_dragTarget\<rparr>) = endYearUI t"
  "endYearUI (t\<lparr>animRequest := v_animRequest\<rparr>) = endYearUI t"
  "endYearUI (t\<lparr>dragOffsets := v_dragOffsets\<rparr>) = endYearUI t"
  "endYearUI (t\<lparr>queuedAnimationFrame := v_queuedAnimationFrame\<rparr>) = endYearUI t"
  "endYearUI (t\<lparr>lastTime := v_lastTime\<rparr>) = endYearUI t"
  "endYearUI (t\<lparr>frames := v_frames\<rparr>) = endYearUI t"
  "endYearUI (t\<lparr>nextHandle := v_nextHandle\<rparr>) = endYearUI t"
  "endYearUI (t\<lparr>sliderWidth := v_sliderWidth\<rparr>) = endYearUI t"
  "endYearUI (t\<lparr>listening := v_listening\<rparr>) = endYearUI t"
  "endYearUI (t\<lparr>reacting := v_reacting\<rparr>) = endYearUI t"
  "endYearUI (t\<lparr>targetChanges := v_targetChanges\<rparr>) = endYearUI t"
  "endYearUI (t\<lparr>debounceMode := v_debounceMode\<rparr>) = endYearUI t"
  "endYearUI (t\<lparr>console := v_console\<rparr>) = endYearUI t"
  by (simp_all add: startYearUI_def endYearUI_def)

lemma closest_update [simp]:
  "startYearClosest (t\<lparr>isPlaying := v_isPlaying\<rparr>) = startYearClosest t"
  "startYearClosest (t\<lparr>dragTarget := v_dragTarget\<rparr>) = startYearClosest t"
  "startYearClosest (t\<lparr>animRequest := v_animRequest\<rparr>) = startYearClosest t"
  "startYearClosest (t\<lparr>dragOffsets := v_dragOffsets\<rparr>) = startYearClosest t"
  "startYearClosest (t\<lparr>queuedAnimationFrame := v_queuedAnimationFrame\<rparr>) = startYearClosest t"
  "startYearClosest (t\<lparr>lastTime := v_lastTime\<rparr>) = startYearClosest t"
  "startYearClosest (t\<lparr>frames := v_frames\<rparr>) = startYearClosest t"
  "startYearClosest (t\<lparr>nextHandle := v_nextHandle\<rparr>) = startYearClosest t"
  "startYearClosest (t\<lparr>sliderWidth := v_sliderWidth\<rparr>) = startYearClosest t"
  "startYearClosest (t\<lparr>listening := v_listening\<rparr>) = startYearClosest t"
  "startYearClosest (t\<lparr>reacting := v_reacting\<rparr>) = startYearClosest t"
  "startYearClosest (t\<lparr>targetChanges := v_targetChanges\<rparr>) = startYearClosest t"
  "startYearClosest (t\<lparr>debounceMode := v_debounceMode\<rparr>) = startYearClosest t"
  "startYearClosest (t\<lparr>console := v_console\<rparr>) = startYearClosest t"
  "endYearClosest (t\<lparr>isPlaying := v_isPlaying\<rparr>) = endYearClosest t"
  "endYearClosest (t\<lparr>dragTarget := v_dragTarget\<rparr>) = endYearClosest t"
  "endYearClosest (t\<lparr>animRequest := v_animRequest\<rparr>) = endYearClosest t"
  "endYearClosest (t\<lparr>dragOffsets := v_dragOffsets\<rparr>) = endYearClosest t"
  "endYearClosest (t\<lparr>queuedAnimationFrame := v_queuedAnimationFrame\<rparr>) = endYearClosest t"
  "endYearClosest (t\<lparr>lastTime := v_lastTime\<rparr>) = endYearClosest t"
  "endYearClosest (t\<lparr>frames := v_frames\<rparr>) = endYearClosest t"
  "endYearClosest (t\<lparr>nextHandle := v_nextHandle\<rparr>) = endYearClosest t"
  "endYearClosest (t\<lparr>sliderWidth := v_sliderWidth\<rparr>) = endYearClosest t"
  "endYearClosest (t\<lparr>listening := v_listening\<rparr>) = endYearClosest t"
  "endYearClosest (t\<lparr>reacting := v_reacting\<rparr>) = endYearClosest t"
  "endYearClosest (t\<lparr>targetChanges := v_targetChanges\<rparr>) = endYearClosest t"
  "endYearClosest (t\<lparr>debounceMode := v_debounceMode\<rparr>) = endYearClosest t"
  "endYearClosest (t\<lparr>console := v_console\<rparr>) = endYearClosest t"
  by (simp_all add: startYearClosest_def endYearClosest_def)

subsection \<open>The width recorded at pointer-down\<close>

lemma onDrag_fields:
  "props (onDrag getBoundFromTimeRange t x) = props t"
  "dragTarget (onDrag getBoundFromTimeRange t x) = dragTarget t"
  "dragOffsets (onDrag getBoundFromTimeRange t x) = dragOffsets t"
  "isPlaying (onDrag getBoundFromTimeRange t x) = isPlaying t"
  by (simp_all add: onDrag_def Let_def onSingleYearChange_def onStartYearChange_def
        onEndYearChange_def)

text \<open>A pointer-down that makes the drag target both handles records two offsets whose
  difference is the width of the resolved interval at that moment.\<close>

lemma pointer_down_records_width:
  assumes "\<not> toggle e" and "onMouseDown getBoundFromTimeRange t e = Inr t'"
    and "dragTarget t' = Some Both"
  shows "snd (dragOffsets t') - fst (dragOffsets t') = endYearUI t - startYearUI t"
proof (cases "getInputYearFromMouse t e")
  case (Inl err)
  with assms(1,2) show ?thesis by (simp add: onMouseDown_def)
next
  case (Inr inputYear)
  with assms show ?thesis
    by (auto simp add: onMouseDown_def Let_def onDrag_fields split: if_splits)
qed

section \<open>Playback\<close>

lemma playFrame_not_playing: "\<not> isPlaying t \<Longrightarrow> playFrame time t = Inr t"
  by (simp add: playFrame_def)

lemma requestPlayFrame_fields:
  "props (requestPlayFrame t) = props t" "isPlaying (requestPlayFrame t) = isPlaying t"
  "dragTarget (requestPlayFrame t) = dragTarget t"
  "startYearRaw (requestPlayFrame t) = startYearRaw t"
  "endYearRaw (requestPlayFrame t) = endYearRaw t"
  "lastTime (requestPlayFrame t) = lastTime t"
  "reacting (requestPlayFrame t) = reacting t"
  "listening (requestPlayFrame t) = listening t"
  "targetChanges (requestPlayFrame t) = targetChanges t"
  "animRequest (requestPlayFrame t) = Some (nextHandle t)"
  "frames (requestPlayFrame t) = frames t @ [(nextHandle t, PlayFrame)]"
  "nextHandle (requestPlayFrame t) = Suc (nextHandle t)"
  by (simp_all add: requestPlayFrame_def requestAnimationFrame_def)

section \<open>Reactions\<close>

lemma closest_ordered: "startYearClosest t \<le> endYearClosest t"
  unfolding startYearClosest_def endYearClosest_def startYear_def endYear_def
  by (rule getClosest_mono) (simp add: min_le_iff_disj)

lemma closest_of_snapped:
  assumes "props t' = props t"
    and "startYearRaw t' = startYearClosest t" and "endYearRaw t' = endYearClosest t"
  shows "startYearClosest t' = startYearClosest t" and "endYearClosest t' = endYearClosest t"
proof -
  have lo: "startYear t' = startYearClosest t" and hi: "endYear t' = endYearClosest t"
    using closest_ordered [of t] assms(2,3)
    by (simp_all add: startYear_def endYear_def min_def max_def)
  show "startYearClosest t' = startYearClosest t"
    unfolding startYearClosest_def [of t'] lo getClosest_props [OF assms(1)]
    by (simp add: startYearClosest_def getClosest_idem isUnbounded_def)
  show "endYearClosest t' = endYearClosest t"
    unfolding endYearClosest_def [of t'] hi getClosest_props [OF assms(1)]
    by (simp add: endYearClosest_def getClosest_idem isUnbounded_def)
qed

lemma autorunIdleSnap_idle:
  "\<not> isPlaying t \<Longrightarrow> dragTarget t = None \<Longrightarrow>
   autorunIdleSnap t = t\<lparr>startYearRaw := startYearClosest t, endYearRaw := endYearClosest t\<rparr>"
  by (simp add: autorunIdleSnap_def isDragging_def)



lemma onStopPlaying_fields [simp]:
  "props (onStopPlaying t) = props t" "isPlaying (onStopPlaying t) = isPlaying t"
  "dragTarget (onStopPlaying t) = dragTarget t"
  "startYearRaw (onStopPlaying t) = startYearRaw t" "endYearRaw (onStopPlaying t) = endYearRaw t"
  "reacting (onStopPlaying t) = reacting t" "listening (onStopPlaying t) = listening t"
  "targetChanges (onStopPlaying t) = targetChanges t"
  "sliderWidth (onStopPlaying t) = sliderWidth t"
  by (simp_all add: onStopPlaying_def cancelAnimationFrame_def split: option.splits)

lemma onStartPlaying_fields [simp]:
  "props (onStartPlaying t) = props t" "isPlaying (onStartPlaying t) = isPlaying t"
  "dragTarget (onStartPlaying t) = dragTarget t"
  "startYearRaw (onStartPlaying t) = startYearRaw t" "endYearRaw (onStartPlaying t) = endYearRaw t"
  "reacting (onStartPlaying t) = reacting t" "listening (onStartPlaying t) = listening t"
  "targetChanges (onStartPlaying t) = targetChanges t"
  "sliderWidth (onStartPlaying t) = sliderWidth t"
  by (simp_all add: onStartPlaying_def requestPlayFrame_def requestAnimationFrame_def)

lemma autorunPlaying_fields [simp]:
  "props (autorunPlaying t) = props t" "isPlaying (autorunPlaying t) = isPlaying t"
  "dragTarget (autorunPlaying t) = dragTarget t"
  "startYearRaw (autorunPlaying t) = startYearRaw t" "endYearRaw (autorunPlaying t) = endYearRaw t"
  "reacting (autorunPlaying t) = reacting t" "listening (autorunPlaying t) = listening t"
  "targetChanges (autorunPlaying t) = targetChanges t"
  "sliderWidth (autorunPlaying t) = sliderWidth t"
  by (simp_all add: autorunPlaying_def)

lemma autorunDebounce_fields [simp]:
  "props (autorunDebounce t) = props t" "isPlaying (autorunDebounce t) = isPlaying t"
  "dragTarget (autorunDebounce t) = dragTarget t"
  "startYearRaw (autorunDebounce t) = startYearRaw t" "endYearRaw (autorunDebounce t) = endYearRaw t"
  "reacting (autorunDebounce t) = reacting t" "listening (autorunDebounce t) = listening t"
  "targetChanges (autorunDebounce t) = targetChanges t"
  "sliderWidth (autorunDebounce t) = sliderWidth t"
  "frames (autorunDebounce t) = frames t" "lastTime (autorunDebounce t) = lastTime t"
  by (simp_all add: autorunDebounce_def)

lemma autorunIdleSnap_fields [simp]:
  "props (autorunIdleSnap t) = props t" "isPlaying (autorunIdleSnap t) = isPlaying t"
  "dragTarget (autorunIdleSnap t) = dragTarget t"
  "reacting (autorunIdleSnap t) = reacting t" "listening (autorunIdleSnap t) = listening t"
  "targetChanges (autorunIdleSnap t) = targetChanges t"
  "sliderWidth (autorunIdleSnap t) = sliderWidth t"
  "frames (autorunIdleSnap t) = frames t" "lastTime (autorunIdleSnap t) = lastTime t"
  by (simp_all add: autorunIdleSnap_def)

lemma autorunTargetChange_fields [simp]:
  "props (autorunTargetChange t) = props t" "isPlaying (autorunTargetChange t) = isPlaying t"
  "dragTarget (autorunTargetChange t) = dragTarget t"
  "startYearRaw (autorunTargetChange t) = startYearRaw t"
  "endYearRaw (autorunTargetChange t) = endYearRaw t"
  "reacting (autorunTargetChange t) = reacting t" "listening (autorunTargetChange t) = listening t"
  "sliderWidth (autorunTargetChange t) = sliderWidth t"
  "frames (autorunTargetChange t) = frames t" "lastTime (autorunTargetChange t) = lastTime t"
  by (simp_all add: autorunTargetChange_def)

lemma react_fields [simp]:
  "props (react old new) = props new" "isPlaying (react old new) = isPlaying new"
  "dragTarget (react old new) = dragTarget new"
  "reacting (react old new) = reacting new" "listening (react old new) = listening new"
  "sliderWidth (react old new) = sliderWidth new"
  by (simp_all add: react_def Let_def)

lemma react_disposed: "\<not> reacting new \<Longrightarrow> react old new = new"
  by (simp add: react_def)

lemma raw_cong_closest:
  "props t' = props t \<Longrightarrow> startYearRaw t' = startYearRaw t \<Longrightarrow> endYearRaw t' = endYearRaw t
   \<Longrightarrow> startYearClosest t' = startYearClosest t \<and> endYearClosest t' = endYearClosest t"
  by (simp add: startYearClosest_def endYearClosest_def startYear_def endYear_def
        getClosest_props [of t' t])


lemma react_stop_frames:
  assumes "reacting new" and "isPlaying old" and "\<not> isPlaying new"
  shows "frames (react old new) = frames (onStopPlaying new)"
  using assms by (simp add: react_def Let_def autorunPlaying_def)

lemma stop_tick:
  assumes "isPlaying t" and "lastTime t = Some before" and "endYearUI t \<ge> maxYear t"
  shows "runCallback getBoundFromTimeRange time PlayFrame t
           = Inr (react t (requestPlayFrame (t\<lparr>isPlaying := False, lastTime := Some time\<rparr>)))"
  using assms by (simp add: runCallback_def playFrame_def Let_def)

lemma stop_tick_cancels:
  assumes "reacting t" and "isPlaying t"
  shows "frames (react t (requestPlayFrame (t\<lparr>isPlaying := False, lastTime := Some time\<rparr>)))
           = filter (\<lambda>r. fst r \<noteq> nextHandle t) (frames t)"
proof -
  let ?n = "requestPlayFrame (t\<lparr>isPlaying := False, lastTime := Some time\<rparr>)"
  have "frames (react t ?n) = frames (onStopPlaying ?n)"
    using assms by (intro react_stop_frames) (simp_all add: requestPlayFrame_fields)
  then show ?thesis
    by (simp add: onStopPlaying_def requestPlayFrame_fields cancelAnimationFrame_def)
qed




section \<open>Mounting\<close>

lemma react_same: "react t t = t"
  by (simp add: react_def)

lemma mount_eq:
  "mount w p =
     (Timeline_constructor p)
       \<lparr>startYearRaw :=
          startYearClosest ((Timeline_constructor p)
            \<lparr>startYearRaw := startYearProp p, endYearRaw := endYearProp p\<rparr>),
        endYearRaw :=
          endYearClosest ((Timeline_constructor p)
            \<lparr>startYearRaw := startYearProp p, endYearRaw := endYearProp p\<rparr>),
        sliderWidth := Some w, listening := True, reacting := True,
        targetChanges :=
          [(startYearClosest ((Timeline_constructor p)
              \<lparr>startYearRaw := startYearProp p, endYearRaw := endYearProp p\<rparr>),
            endYearClosest ((Timeline_constructor p)
              \<lparr>startYearRaw := startYearProp p, endYearRaw := endYearProp p\<rparr>))]\<rparr>"
proof -
  let ?c = "Timeline_constructor p"
  let ?t2 = "?c\<lparr>sliderWidth := Some w, startYearRaw := startYearProp p,
                endYearRaw := endYearProp p, listening := True\<rparr>"
  let ?r = "?c\<lparr>startYearRaw := startYearProp p, endYearRaw := endYearProp p\<rparr>"
  have c0: "isPlaying ?c = False" "dragTarget ?c = None" "animRequest ?c = None"
    "targetChanges ?c = []" "debounceMode ?c = False" "props ?c = p"
    by (simp_all add: Timeline_constructor_def)
  have p2: "autorunPlaying ?t2 = ?t2"
    by (simp add: autorunPlaying_def onStopPlaying_def c0)
  have d2: "autorunDebounce ?t2 = ?t2"
    by (simp add: autorunDebounce_def isDragging_def c0)
  have cl: "startYearClosest ?t2 = startYearClosest ?r \<and> endYearClosest ?t2 = endYearClosest ?r"
    by (rule raw_cong_closest) simp_all
  have s2: "autorunIdleSnap ?t2
      = ?t2\<lparr>startYearRaw := startYearClosest ?r, endYearRaw := endYearClosest ?r\<rparr>"
    using cl by (simp add: autorunIdleSnap_idle c0)
  have fp: "startYearClosest (?c\<lparr>sliderWidth := Some w, listening := True,
               startYearRaw := startYearClosest ?r, endYearRaw := endYearClosest ?r\<rparr>)
             = startYearClosest ?r"
    "endYearClosest (?c\<lparr>sliderWidth := Some w, listening := True,
               startYearRaw := startYearClosest ?r, endYearRaw := endYearClosest ?r\<rparr>)
             = endYearClosest ?r"
    by (rule closest_of_snapped; simp)+
  show ?thesis
    unfolding mount_def componentDidMount_def Let_def
    by (simp add: p2 d2 s2 autorunTargetChange_def fp c0)
qed

lemma props_mount [simp]: "props (mount w p) = p"
  by (simp add: mount_eq)

lemma mount_snapped:
  assumes "startYearClosest ((Timeline_constructor p)
             \<lparr>startYearRaw := startYearProp p, endYearRaw := endYearProp p\<rparr>) = s"
    and "endYearClosest ((Timeline_constructor p)
             \<lparr>startYearRaw := startYearProp p, endYearRaw := endYearProp p\<rparr>) = e"
  shows "mount 100 p = mounted p s e"
  by (simp add: mount_eq assms mounted_def)

lemma closest_fiveYears:
  assumes "years (props t) = [1990, 1995, 2000, 2005, 2010]"
  shows "getClosest t (Concrete 1990) d = Concrete 1990"
    and "getClosest t (Concrete 1993) d = Concrete 1995"
    and "getClosest t (Concrete 1995) d = Concrete 1995"
    and "getClosest t (Concrete 2005) d = Concrete 2005"
    and "getClosest t (Concrete 2010) d = Concrete 2010"
  by (simp_all add: getClosest_def isUnbounded_def assms)

lemma timelineProps_bounds [simp]:
  "startYearProp (timelineProps ys s e) = s" "endYearProp (timelineProps ys s e) = e"
  by (simp_all add: timelineProps_def)

lemma mount_1995_2005:
  "mount 100 (timelineProps fiveYears (Concrete 1995) (Concrete 2005))
     = mounted (timelineProps fiveYears (Concrete 1995) (Concrete 2005))
         (Concrete 1995) (Concrete 2005)"
  by (rule mount_snapped)
     (simp_all add: startYearClosest_def endYearClosest_def startYear_def endYear_def
        closest_fiveYears fiveYears_props)

lemma mount_1990_1995:
  "mount 100 (timelineProps fiveYears (Concrete 1990) (Concrete 1995))
     = mounted (timelineProps fiveYears (Concrete 1990) (Concrete 1995))
         (Concrete 1990) (Concrete 1995)"
  by (rule mount_snapped)
     (simp_all add: startYearClosest_def endYearClosest_def startYear_def endYear_def
        closest_fiveYears fiveYears_props)

lemma mount_1990_2010:
  "mount 100 (timelineProps fiveYears (Concrete 1990) (Concrete 2010))
     = mounted (timelineProps fiveYears (Concrete 1990) (Concrete 2010))
         (Concrete 1990) (Concrete 2010)"
  by (rule mount_snapped)
     (simp_all add: startYearClosest_def endYearClosest_def startYear_def endYear_def
        closest_fiveYears fiveYears_props)


lemma mounted_fields:
  "props (mounted p s e) = p" "isPlaying (mounted p s e) = False"
  "dragTarget (mounted p s e) = None" "startYearRaw (mounted p s e) = s"
  "endYearRaw (mounted p s e) = e" "animRequest (mounted p s e) = None"
  "lastTime (mounted p s e) = None" "frames (mounted p s e) = []"
  "nextHandle (mounted p s e) = 1" "sliderWidth (mounted p s e) = Some 100"
  "listening (mounted p s e) = True" "reacting (mounted p s e) = True"
  "targetChanges (mounted p s e) = [(s, e)]" "debounceMode (mounted p s e) = False"
  "queuedAnimationFrame (mounted p s e) = None" "dragOffsets (mounted p s e) = (0, 0)"
  by (simp_all add: mounted_def Timeline_constructor_def)

lemma togglePlay_mounted:
  "togglePlay (mounted p s e)
     = (mounted p s e)\<lparr>isPlaying := True, animRequest := Some 1, frames := [(1, PlayFrame)],
                        nextHandle := 2, debounceMode := True\<rparr>"
  by (simp add: togglePlay_def onTogglePlay_def react_def Let_def mounted_fields
        autorunPlaying_def onStartPlaying_def requestPlayFrame_def requestAnimationFrame_def
        autorunDebounce_def autorunIdleSnap_def isDragging_def)

lemma playingFrom1995_reached:
  "togglePlay (mount 100 (timelineProps fiveYears (Concrete 1990) (Concrete 1995)))
     = playingFrom1995"
  by (simp add: mount_1990_1995 togglePlay_mounted playingFrom1995_def)

lemma playingAtEnd_reached:
  "togglePlay (mount 100 (timelineProps fiveYears (Concrete 1990) (Concrete 2010)))
     = playingAtEnd"
  by (simp add: mount_1990_2010 togglePlay_mounted playingAtEnd_def)

lemma playingFrom1995_fields:
  "props playingFrom1995 = timelineProps fiveYears (Concrete 1990) (Concrete 1995)"
  "isPlaying playingFrom1995 = True" "dragTarget playingFrom1995 = None"
  "startYearRaw playingFrom1995 = Concrete 1990" "endYearRaw playingFrom1995 = Concrete 1995"
  "lastTime playingFrom1995 = None" "frames playingFrom1995 = [(1, PlayFrame)]"
  "nextHandle playingFrom1995 = 2" "reacting playingFrom1995 = True"
  "listening playingFrom1995 = True" "animRequest playingFrom1995 = Some 1"
  by (simp_all add: playingFrom1995_def mounted_fields)

lemma playingAtEnd_fields:
  "props playingAtEnd = timelineProps fiveYears (Concrete 1990) (Concrete 2010)"
  "isPlaying playingAtEnd = True" "dragTarget playingAtEnd = None"
  "startYearRaw playingAtEnd = Concrete 1990" "endYearRaw playingAtEnd = Concrete 2010"
  "lastTime playingAtEnd = None" "frames playingAtEnd = [(1, PlayFrame)]"
  "nextHandle playingAtEnd = 2" "reacting playingAtEnd = True"
  by (simp_all add: playingAtEnd_def mounted_fields)

lemma five_axis:
  "years (props t) = [1990, 1995, 2000, 2005, 2010] \<Longrightarrow> minYear t = 1990 \<and> maxYear t = 2010"
  by (simp add: minYear_def maxYear_def)

section \<open>The playback loop\<close>

text \<open>
  C3. \<open>onStartPlaying\<close> starts a run with no last time and one frame requested. On the
  first tick of a run (no last time yet), when the resolved end is at or past the maximum
  year, both raw bounds become the minimum year; the first tick never advances, it records
  the time. On a later tick with the resolved end at or past the maximum year, \<open>isPlaying\<close>
  becomes false and no bound is advanced; with the reactions live, the frame that this tick
  requested is cancelled by the reaction to \<open>isPlaying\<close>. A tick that finds \<open>isPlaying\<close> false
  changes nothing, so the run does not go on by itself.
\<close>

theorem playback_rewinds_then_stops:
  "lastTime (onStartPlaying t) = None
   \<and> (nextHandle t, PlayFrame) \<in> set (frames (onStartPlaying t))
   \<and> (isPlaying t \<and> lastTime t = None \<and> endYearUI t \<ge> maxYear t \<longrightarrow>
        playFrame time t
          = Inr (requestPlayFrame
                   (t\<lparr>startYearRaw := Concrete (minYear t), endYearRaw := Concrete (minYear t),
                      lastTime := Some time\<rparr>)))
   \<and> (isPlaying t \<and> lastTime t = None \<and> \<not> endYearUI t \<ge> maxYear t \<longrightarrow>
        playFrame time t = Inr (requestPlayFrame (t\<lparr>lastTime := Some time\<rparr>)))
   \<and> (isPlaying t \<and> lastTime t = Some before \<and> endYearUI t \<ge> maxYear t \<longrightarrow>
        playFrame time t
          = Inr (requestPlayFrame (t\<lparr>isPlaying := False, lastTime := Some time\<rparr>))
        \<and> (reacting t \<longrightarrow>
             (\<exists>t'. runCallback getBoundFromTimeRange time PlayFrame t = Inr t'
                \<and> \<not> isPlaying t'
                \<and> frames t' = filter (\<lambda>r. fst r \<noteq> nextHandle t) (frames t))))
   \<and> (\<not> isPlaying t \<longrightarrow>
        playFrame time t = Inr t
        \<and> runCallback getBoundFromTimeRange time PlayFrame t = Inr t)"
proof -
  have start: "lastTime (onStartPlaying t) = None
      \<and> (nextHandle t, PlayFrame) \<in> set (frames (onStartPlaying t))"
    by (simp add: onStartPlaying_def requestPlayFrame_fields)
  have tick: "(isPlaying t \<and> lastTime t = None \<and> endYearUI t \<ge> maxYear t \<longrightarrow>
        playFrame time t
          = Inr (requestPlayFrame
                   (t\<lparr>startYearRaw := Concrete (minYear t), endYearRaw := Concrete (minYear t),
                      lastTime := Some time\<rparr>)))
   \<and> (isPlaying t \<and> lastTime t = None \<and> \<not> endYearUI t \<ge> maxYear t \<longrightarrow>
        playFrame time t = Inr (requestPlayFrame (t\<lparr>lastTime := Some time\<rparr>)))
   \<and> (isPlaying t \<and> lastTime t = Some before \<and> endYearUI t \<ge> maxYear t \<longrightarrow>
        playFrame time t
          = Inr (requestPlayFrame (t\<lparr>isPlaying := False, lastTime := Some time\<rparr>)))
   \<and> (\<not> isPlaying t \<longrightarrow> playFrame time t = Inr t)"
    by (simp add: playFrame_def Let_def)
  have event: "isPlaying t \<and> lastTime t = Some before \<and> endYearUI t \<ge> maxYear t
      \<and> reacting t \<longrightarrow>
        (\<exists>t'. runCallback getBoundFromTimeRange time PlayFrame t = Inr t'
           \<and> \<not> isPlaying t'
           \<and> frames t' = filter (\<lambda>r. fst r \<noteq> nextHandle t) (frames t))"
    using stop_tick [where t = t and before = before and time = time
        and getBoundFromTimeRange = getBoundFromTimeRange]
      stop_tick_cancels [where t = t and time = time]
    by (auto simp add: requestPlayFrame_fields)
  have idle: "\<not> isPlaying t \<longrightarrow> runCallback getBoundFromTimeRange time PlayFrame t = Inr t"
    by (simp add: runCallback_def playFrame_not_playing react_same)
  from start tick event idle show ?thesis by blast
qed

theorem playback_rewinds_then_stops_witness:
  "isPlaying playingAtEnd \<and> lastTime playingAtEnd = None
   \<and> endYearUI playingAtEnd = 2010 \<and> maxYear playingAtEnd = 2010
   \<and> playFrame 0 playingAtEnd
       = Inr (requestPlayFrame (playingAtEnd\<lparr>startYearRaw := Concrete 1990,
                endYearRaw := Concrete 1990, lastTime := Some 0\<rparr>))
   \<and> playFrame 16 (playingAtEnd\<lparr>lastTime := Some 0\<rparr>)
       = Inr (requestPlayFrame (playingAtEnd\<lparr>isPlaying := False, lastTime := Some 16\<rparr>))
   \<and> playFrame 32 (playingAtEnd\<lparr>isPlaying := False\<rparr>) = Inr (playingAtEnd\<lparr>isPlaying := False\<rparr>)"
proof -
  have ax: "minYear playingAtEnd = 1990" "maxYear playingAtEnd = 2010"
    using five_axis [of playingAtEnd] by (simp_all add: playingAtEnd_fields fiveYears_props)
  have ui: "endYearUI playingAtEnd = 2010"
    by (simp add: endYearUI_def endYear_def playingAtEnd_fields)
  show ?thesis
    using playback_rewinds_then_stops [of playingAtEnd 0 0 yearBound]
      playback_rewinds_then_stops [of "playingAtEnd\<lparr>lastTime := Some 0\<rparr>" 16 0 yearBound]
      playback_rewinds_then_stops [of "playingAtEnd\<lparr>isPlaying := False\<rparr>" 32 0 yearBound]
    by (simp add: ax ui playingAtEnd_fields)
qed

section \<open>The emitted range\<close>

text \<open>
  C5, as the code has it. When the external range is the pair of sentinels, unbounded left
  and unbounded right, mounting emits that pair through \<^verbatim>\<open>onTargetChange\<close>, on every axis:
  \<open>getClosest\<close> passes sentinels through. Only their resolution for the UI is concrete: the
  minimum and the maximum year of the axis.
\<close>

theorem mount_unbounded_emits_sentinels:
  assumes "startYearProp p = UnboundedLeft" and "endYearProp p = UnboundedRight"
  shows "targetChanges (mount w p) = [(UnboundedLeft, UnboundedRight)]
    \<and> startYearClosest (mount w p) = UnboundedLeft
    \<and> endYearClosest (mount w p) = UnboundedRight
    \<and> startYearUI (mount w p) = minYear (mount w p)
    \<and> endYearUI (mount w p) = maxYear (mount w p)"
proof -
  let ?r = "(Timeline_constructor p)\<lparr>startYearRaw := UnboundedLeft, endYearRaw := UnboundedRight\<rparr>"
  have c: "startYearClosest ?r = UnboundedLeft" "endYearClosest ?r = UnboundedRight"
    by (simp_all add: startYearClosest_def endYearClosest_def startYear_def endYear_def
          getClosest_def isUnbounded_def)
  have m: "mount w p = (Timeline_constructor p)
       \<lparr>startYearRaw := UnboundedLeft, endYearRaw := UnboundedRight,
        sliderWidth := Some w, listening := True, reacting := True,
        targetChanges := [(UnboundedLeft, UnboundedRight)]\<rparr>"
    by (simp add: mount_eq assms c)
  show ?thesis
    unfolding m
    by (simp add: startYearClosest_def endYearClosest_def startYearUI_def endYearUI_def
          startYear_def endYear_def getClosest_def isUnbounded_def)
qed

theorem mount_unbounded_emits_sentinels_witness:
  "targetChanges (mount 100 (timelineProps fiveYears UnboundedLeft UnboundedRight))
     = [(UnboundedLeft, UnboundedRight)]
   \<and> startYearUI (mount 100 (timelineProps fiveYears UnboundedLeft UnboundedRight)) = 1990
   \<and> endYearUI (mount 100 (timelineProps fiveYears UnboundedLeft UnboundedRight)) = 2010"
proof -
  have ax: "minYear (mount 100 (timelineProps fiveYears UnboundedLeft UnboundedRight)) = 1990"
    "maxYear (mount 100 (timelineProps fiveYears UnboundedLeft UnboundedRight)) = 2010"
    using five_axis [of "mount 100 (timelineProps fiveYears UnboundedLeft UnboundedRight)"]
    by (simp_all add: fiveYears_props)
  show ?thesis
    using mount_unbounded_emits_sentinels
      [of "timelineProps fiveYears UnboundedLeft UnboundedRight" 100]
    by (simp add: ax)
qed

text \<open>On the axis 1990, 1995, 2000, 2005, 2010 the pair emitted for the two sentinels is
  the two sentinels, not the pair of 1990 and 2010.\<close>

theorem mount_unbounded_counterexample:
  "targetChanges (mount 100 (timelineProps fiveYears UnboundedLeft UnboundedRight))
     = [(UnboundedLeft, UnboundedRight)]
   \<and> targetChanges (mount 100 (timelineProps fiveYears UnboundedLeft UnboundedRight))
     \<noteq> [(Concrete 1990, Concrete 2010)]"
proof -
  have "mount 100 (timelineProps fiveYears UnboundedLeft UnboundedRight)
      = mounted (timelineProps fiveYears UnboundedLeft UnboundedRight)
          UnboundedLeft UnboundedRight"
    by (rule mount_snapped)
       (simp_all add: startYearClosest_def endYearClosest_def startYear_def endYear_def
          getClosest_def isUnbounded_def)
  then show ?thesis by (simp add: mounted_fields)
qed

section \<open>Returning to idle\<close>







section \<open>Unmounting\<close>

lemma playingFrom1995_ui: "endYearUI playingFrom1995 = 1995" "maxYear playingFrom1995 = 2010"
  using five_axis [of playingFrom1995]
  by (simp_all add: endYearUI_def endYear_def playingFrom1995_fields fiveYears_props)

lemma react_quiet:
  assumes "isPlaying new = isPlaying old" and "dragTarget new = dragTarget old"
    and "startYearClosest new = startYearClosest old"
    and "endYearClosest new = endYearClosest old"
  shows "react old new = new"
  using assms by (simp add: react_def Let_def isDragging_def)

lemma first_tick: "animationFrame yearBound 0 playingFrom1995 = Inr afterFirstTick"
proof -
  let ?t = "playingFrom1995\<lparr>frames := []\<rparr>"
  have ui: "endYearUI ?t = 1995" "maxYear ?t = 2010"
    by (simp_all add: playingFrom1995_ui)
  have play: "playFrame 0 ?t = Inr (afterFirstTick)"
    by (simp add: playFrame_def playingFrom1995_ui playingFrom1995_fields requestPlayFrame_def
          requestAnimationFrame_def afterFirstTick_def)
  have quiet: "react ?t afterFirstTick = afterFirstTick"
    by (rule react_quiet) (simp_all add: afterFirstTick_def)
  show ?thesis
    by (simp add: animationFrame_def playingFrom1995_fields runCallback_def play quiet)
qed

lemma afterFirstTick_fields:
  "props afterFirstTick = timelineProps fiveYears (Concrete 1990) (Concrete 1995)"
  "isPlaying afterFirstTick = True" "lastTime afterFirstTick = Some 0"
  "startYearRaw afterFirstTick = Concrete 1990" "endYearRaw afterFirstTick = Concrete 1995"
  "frames afterFirstTick = [(2, PlayFrame)]" "nextHandle afterFirstTick = 3"
  "targetChanges afterFirstTick = [(Concrete 1990, Concrete 1995)]"
  by (simp_all add: afterFirstTick_def playingFrom1995_fields playingFrom1995_def mounted_fields)

lemma unmount_fields:
  "props (unmount t) = props t" "isPlaying (unmount t) = isPlaying t"
  "lastTime (unmount t) = lastTime t" "startYearRaw (unmount t) = startYearRaw t"
  "endYearRaw (unmount t) = endYearRaw t" "frames (unmount t) = frames t"
  "nextHandle (unmount t) = nextHandle t" "targetChanges (unmount t) = targetChanges t"
  "reacting (unmount t) = False" "listening (unmount t) = False" "sliderWidth (unmount t) = None"
  by (simp_all add: unmount_def componentWillUnmount_def)

lemma tick_after_unmount:
  "animationFrame yearBound 200 (unmount afterFirstTick)
     = Inr ((unmount afterFirstTick)
              \<lparr>endYearRaw := Concrete (5990 / 3), lastTime := Some 200,
               animRequest := Some 3, frames := [(3, PlayFrame)], nextHandle := 4\<rparr>)"
proof -
  let ?t = "(unmount afterFirstTick)\<lparr>frames := []\<rparr>"
  let ?n = "(unmount afterFirstTick)
              \<lparr>endYearRaw := Concrete (5990 / 3), lastTime := Some 200,
               animRequest := Some 3, frames := [(3, PlayFrame)], nextHandle := 4\<rparr>"
  have ys: "years (props (unmount afterFirstTick)) = [1990, 1995, 2000, 2005, 2010]"
    by (simp add: unmount_fields afterFirstTick_fields fiveYears_props)
  have ui: "endYearUI (unmount afterFirstTick) = 1995" "maxYear (unmount afterFirstTick) = 2010"
    using five_axis [OF ys]
    by (simp_all add: endYearUI_def endYear_def unmount_fields afterFirstTick_fields)
  have nxt: "elementAt [1990, 1995, 2000, 2005, 2010 :: real]
               (indexOf [1990, 1995, 2000, 2005, 2010 :: real] 1995 + 1) = Some 2000"
    by (simp add: elementAt_def)
  have play: "playFrame 200 ?t = Inr ?n"
    by (simp add: playFrame_def ui ys nxt unmount_fields afterFirstTick_fields fiveYears_props
          requestPlayFrame_def requestAnimationFrame_def ticksPerSec_def Let_def
          del: indexOf.simps)
  have off: "react ?t ?n = ?n"
    by (simp add: react_disposed unmount_fields)
  show ?thesis
    by (simp add: animationFrame_def unmount_fields afterFirstTick_fields runCallback_def
          play off)
qed

text \<open>
  C4 fails on the code. \<open>componentWillUnmount\<close> removes the listeners and disposes the
  reactions, and cancels no animation frame. After one tick of playback and the unmount, the
  frame requested by \<open>playFrame\<close> is still pending; when it fires, the end bound moves from
  1995 to 5990/3 and the next frame is requested (\<^verbatim>\<open>onTargetChange\<close> is not called again).
  A pointer move queued before the unmount stays pending too, and its callback throws on
  the cleared ref.
\<close>

theorem unmount_keeps_frames:
  "andThen (animationFrame yearBound 0
       (togglePlay (mount 100 (timelineProps fiveYears (Concrete 1990) (Concrete 1995)))))
     (\<lambda>t. Inr (unmount t)) = Inr (unmount afterFirstTick)
   \<and> isPlaying (unmount afterFirstTick) = True
   \<and> reacting (unmount afterFirstTick) = False
   \<and> listening (unmount afterFirstTick) = False
   \<and> frames (unmount afterFirstTick) = [(2, PlayFrame)]
   \<and> endYearRaw (unmount afterFirstTick) = Concrete 1995
   \<and> map_sum id (\<lambda>t. (endYearRaw t, frames t, targetChanges t))
        (animationFrame yearBound 200 (unmount afterFirstTick))
       = Inr (Concrete (5990 / 3), [(3, PlayFrame)], [(Concrete 1990, Concrete 1995)])
   \<and> frames (unmount (mouseMove (pointerAt 60) rangePressed))
       = [(1, DragFrame (pointerAt 60))]
   \<and> animationFrame yearBound 200 (unmount (mouseMove (pointerAt 60) rangePressed))
       = Inl TypeError"
proof -
  have trace: "andThen (animationFrame yearBound 0
       (togglePlay (mount 100 (timelineProps fiveYears (Concrete 1990) (Concrete 1995)))))
     (\<lambda>t. Inr (unmount t)) = Inr (unmount afterFirstTick)"
    by (simp add: playingFrom1995_reached first_tick andThen_def)
  have moved: "mouseMove (pointerAt 60) rangePressed
      = rangePressed\<lparr>frames := [(1, DragFrame (pointerAt 60))], nextHandle := 2,
                      queuedAnimationFrame := Some 1\<rparr>"
  proof -
    have h: "onMouseMove rangePressed (pointerAt 60)
        = rangePressed\<lparr>frames := [(1, DragFrame (pointerAt 60))], nextHandle := 2,
                        queuedAnimationFrame := Some 1\<rparr>"
      by (simp add: onMouseMove_def rangePressed_def Timeline_constructor_def
            requestAnimationFrame_def)
    have l: "listening rangePressed"
      by (simp add: rangePressed_def)
    have "react rangePressed (onMouseMove rangePressed (pointerAt 60))
        = onMouseMove rangePressed (pointerAt 60)"
      unfolding h by (rule react_quiet) simp_all
    then show ?thesis by (simp add: mouseMove_def l h)
  qed
  have drag: "animationFrame yearBound 200 (unmount (mouseMove (pointerAt 60) rangePressed))
      = Inl TypeError"
    by (simp add: animationFrame_def unmount_fields moved runCallback_def
          getInputYearFromMouse_def)
  have pending: "frames (mouseMove (pointerAt 60) rangePressed)
      = [(1, DragFrame (pointerAt 60))]"
    by (simp add: moved)
  show ?thesis
    by (simp add: trace unmount_fields afterFirstTick_fields tick_after_unmount pending drag)
qed

section \<open>How the example states arise\<close>

text \<open>A pointer-down at the middle of the slider, on the range 1995 to 2005, gives
  \<open>rangePressed\<close>; in single-year mode the same pointer-down calls \<open>onDrag\<close> on
  \<open>singlePressed\<close>.\<close>

lemma pointerAt_fields [simp]:
  "mouseX (pointerAt x) = x" "toggle (pointerAt x) = False"
  "startMarker (pointerAt x) = False" "endMarker (pointerAt x) = False"
  by (simp_all add: pointerAt_def)

lemma rangePressed_reached:
  "mouseDown yearBound (pointerAt 50)
     (mount 100 (timelineProps fiveYears (Concrete 1995) (Concrete 2005))) = Inr rangePressed"
proof -
  let ?p = "timelineProps fiveYears (Concrete 1995) (Concrete 2005)"
  let ?m = "mounted ?p (Concrete 1995) (Concrete 2005)"
  let ?d = "?m\<lparr>dragTarget := Some Both, dragOffsets := (- 5, 5)\<rparr>"
  have ax: "minYear ?m = 1990" "maxYear ?m = 2010"
    using five_axis [of ?m] by (simp_all add: mounted_fields fiveYears_props)
  have ui: "startYearUI ?m = 1995" "endYearUI ?m = 2005"
    by (simp_all add: startYearUI_def endYearUI_def startYear_def endYear_def mounted_fields)
  have input: "getInputYearFromMouse ?m (pointerAt 50) = Inr 2000"
    by (simp add: getInputYearFromMouse_def mounted_fields ax)
  have down: "onMouseDown yearBound ?m (pointerAt 50) = Inr ?d"
    by (simp add: onMouseDown_def input ui ax mounted_fields fiveYears_props Let_def
          onDrag_def yearBound_def)
  have cl: "startYearClosest ?d = startYearClosest ?m \<and> endYearClosest ?d = endYearClosest ?m"
    by (rule raw_cong_closest) simp_all
  have r: "react ?m ?d = ?d\<lparr>debounceMode := True\<rparr>"
    using cl
    by (simp add: react_def Let_def mounted_fields isDragging_def autorunDebounce_def
          autorunIdleSnap_def)
  have e: "?d\<lparr>debounceMode := True\<rparr> = rangePressed"
    by (simp add: rangePressed_def mounted_def)
  show ?thesis
    by (simp add: mouseDown_def mount_1995_2005 down r e)
qed

lemma singlePressed_reached:
  "onMouseDown yearBound (mount 100 singleProps) (pointerAt 50)
     = Inr (onDrag yearBound singlePressed 2000)"
proof -
  let ?m = "mounted singleProps (Concrete 1995) (Concrete 2005)"
  have ys: "years singleProps = [1990, 1995, 2000, 2005, 2010]"
    "startYearProp singleProps = Concrete 1995" "endYearProp singleProps = Concrete 2005"
    "singleYearMode singleProps = True"
    by (simp_all add: singleProps_def fiveYears_props)
  have m: "mount 100 singleProps = ?m"
    by (rule mount_snapped)
       (simp_all add: startYearClosest_def endYearClosest_def startYear_def endYear_def
          closest_fiveYears ys)
  have ax: "minYear ?m = 1990" "maxYear ?m = 2010"
    using five_axis [of ?m] by (simp_all add: mounted_fields ys)
  have ui: "startYearUI ?m = 1995" "endYearUI ?m = 2005"
    by (simp_all add: startYearUI_def endYearUI_def startYear_def endYear_def mounted_fields)
  have input: "getInputYearFromMouse ?m (pointerAt 50) = Inr 2000"
    by (simp add: getInputYearFromMouse_def mounted_fields ax)
  show ?thesis
    unfolding m
    by (simp add: onMouseDown_def input ui mounted_fields ys Let_def singlePressed_def)
qed

end
